theory Spec2Isabelle
  imports Complex_Main "HOL-Library.Char_ord" "HOL-Library.List_Lexorder"
    "HOL-Library.Product_Lexorder" "HOL-Library.Option_ord"
begin

section \<open>Errors\<close>

text \<open>
  The exceptions the programs can meet.  \<open>IntegrityError\<close> and \<open>OperationalError\<close> are
  the two classes of \<^verbatim>\<open>sqlite3\<close> the scripts distinguish (only the first is caught by the
  rollback demonstrations); \<open>IndexError\<close> is what \<^verbatim>\<open>sqlite3.Row.__getitem__\<close> raises for a
  column name the row does not have; \<open>KeyError\<close> is a dictionary read of \<^verbatim>\<open>seed_data\<close>
  that misses; \<open>AssertionError\<close> is the \<^verbatim>\<open>assert\<close> of \<^verbatim>\<open>demo_transaction_rollback\<close>.
\<close>

datatype error = IntegrityError | OperationalError | IndexError | KeyError | AssertionError

section \<open>The result formatter: \<^verbatim>\<open>print_rows\<close>\<close>

text \<open>
  A \<^verbatim>\<open>sqlite3.Row\<close> is an ordered sequence of named columns: a list of pairs of a column
  name and a value.  The formatter is generic in the type of the values; Python's
  \<^verbatim>\<open>str\<close> is a parameter \<open>str\<close> of the model, a total function as \<^verbatim>\<open>str\<close> is on
  the scalars SQLite returns.  Standard output is the list of the arguments of the
  successive \<^verbatim>\<open>print\<close> calls, one entry per call.
\<close>

type_synonym 'v row = "(string \<times> 'v) list"

definition keys :: "'v row \<Rightarrow> string list" where
  "keys r = map fst r"

text \<open>\<^verbatim>\<open>r[c]\<close>: the value of the first column named \<open>c\<close>, or \<open>IndexError\<close>.\<close>

definition getitem :: "'v row \<Rightarrow> string \<Rightarrow> error + 'v" where
  "getitem r c = (case map_of r c of None \<Rightarrow> Inl IndexError | Some v \<Rightarrow> Inr v)"

text \<open>A comprehension whose body may raise: the first exception ends it.\<close>

fun traverse :: "('a \<Rightarrow> error + 'b) \<Rightarrow> 'a list \<Rightarrow> error + 'b list" where
  "traverse f [] = Inr []"
| "traverse f (x # xs) =
     (case f x of
        Inl e \<Rightarrow> Inl e
      | Inr y \<Rightarrow> (case traverse f xs of Inl e \<Rightarrow> Inl e | Inr ys \<Rightarrow> Inr (y # ys)))"

text \<open>\<^verbatim>\<open>sep.join(xs)\<close>\<close>

fun join :: "string \<Rightarrow> string list \<Rightarrow> string" where
  "join sep [] = []"
| "join sep [x] = x"
| "join sep (x # y # ys) = x @ sep @ join sep (y # ys)"

text \<open>\<^verbatim>\<open>s.ljust(w)\<close>: \<open>s\<close> itself when it is at least \<open>w\<close> long, else \<open>s\<close> followed by spaces.\<close>

definition ljust :: "string \<Rightarrow> nat \<Rightarrow> string" where
  "ljust s w = s @ replicate (w - length s) (CHR '' '')"

text \<open>\<^verbatim>\<open>max(len(str(r[c])) for r in rows)\<close> on the non-empty sequence \<open>r0 # rs\<close>.\<close>

definition max_len :: "('v \<Rightarrow> string) \<Rightarrow> string \<Rightarrow> 'v row \<Rightarrow> 'v row list \<Rightarrow> error + nat" where
  "max_len str c r0 rs =
     (case traverse (\<lambda>r. case getitem r c of Inl e \<Rightarrow> Inl e | Inr v \<Rightarrow> Inr (length (str v)))
             (r0 # rs) of
        Inl e \<Rightarrow> Inl e
      | Inr ns \<Rightarrow> Inr (fold max (tl ns) (hd ns)))"

text \<open>
  \<^verbatim>\<open>widths = {c: max(len(c), max(...)) for c in cols}\<close>: the dictionary as an association
  list in the order of \<open>cols\<close>; \<open>widths[c]\<close> is read for \<open>c\<close> in \<open>cols\<close> only, where a
  repeated column name carries the same width at each occurrence.
\<close>

definition widths ::
  "('v \<Rightarrow> string) \<Rightarrow> string list \<Rightarrow> 'v row \<Rightarrow> 'v row list \<Rightarrow> error + (string \<times> nat) list" where
  "widths str cols r0 rs =
     traverse (\<lambda>c. case max_len str c r0 rs of
                      Inl e \<Rightarrow> Inl e
                    | Inr m \<Rightarrow> Inr (c, max (length c) m)) cols"

definition width_of :: "(string \<times> nat) list \<Rightarrow> string \<Rightarrow> nat" where
  "width_of ws c = (case map_of ws c of None \<Rightarrow> 0 | Some w \<Rightarrow> w)"

definition format_row ::
  "('v \<Rightarrow> string) \<Rightarrow> (string \<times> nat) list \<Rightarrow> string list \<Rightarrow> 'v row \<Rightarrow> error + string" where
  "format_row str ws cols r =
     (case traverse (\<lambda>c. case getitem r c of
                            Inl e \<Rightarrow> Inl e
                          | Inr v \<Rightarrow> Inr (ljust (str v) (width_of ws c))) cols of
        Inl e \<Rightarrow> Inl e
      | Inr cells \<Rightarrow> Inr (join '' | '' cells))"

definition banner :: "string \<Rightarrow> string list" where
  "banner title = [CHR 10 # replicate 80 (CHR ''=''), title, replicate 80 (CHR ''-'')]"

text \<open>
  \<^verbatim>\<open>print_rows(title, rows)\<close> of \<^verbatim>\<open>demo.py\<close>; the copies in \<^verbatim>\<open>exercises.py\<close> and
  \<^verbatim>\<open>homework.py\<close> differ only in where \<^verbatim>\<open>rows = list(rows)\<close> stands.  \<open>Inr out\<close> is a
  normal return having printed \<open>out\<close>; \<open>Inl e\<close> is the exception that escapes (what was
  printed before it is not recorded).
\<close>

definition print_rows :: "('v \<Rightarrow> string) \<Rightarrow> string \<Rightarrow> 'v row list \<Rightarrow> error + string list" where
  "print_rows str title rows =
     (case rows of
        [] \<Rightarrow> Inr (banner title @ [''(no rows)''])
      | r0 # rs \<Rightarrow>
          (let cols = keys r0 in
           case widths str cols r0 rs of
             Inl e \<Rightarrow> Inl e
           | Inr ws \<Rightarrow>
               (let header = join '' | '' (map (\<lambda>c. ljust c (width_of ws c)) cols);
                    sep = join ''-+-'' (map (\<lambda>c. replicate (width_of ws c) (CHR ''-'')) cols)
                in case traverse (format_row str ws cols) (r0 # rs) of
                     Inl e \<Rightarrow> Inl e
                   | Inr body \<Rightarrow> Inr (banner title @ [header, sep] @ body))))"

subsection \<open>The table as the specification words it\<close>




section \<open>The database\<close>

subsection \<open>Rows and tables\<close>

text \<open>
  One record per table of the three schemas, with the columns of its
  \<^verbatim>\<open>CREATE TABLE\<close>; a field is named after the alias the queries give its table
  (\<^verbatim>\<open>s.name\<close> is \<open>s_name\<close>).  The column types are those the Python signatures pass:
  \<^verbatim>\<open>int\<close> and \<^verbatim>\<open>str\<close>, never \<^verbatim>\<open>None\<close>, so \<^verbatim>\<open>NOT NULL\<close> holds by typing.
  \<open>g_created_at\<close> is \<open>None\<close> in a \<^verbatim>\<open>grades\<close> table of \<^verbatim>\<open>homework.py\<close>, which has no
  such column, and the value of \<^verbatim>\<open>datetime('now')\<close> in one of \<^verbatim>\<open>demo.py\<close>.
\<close>

record student =
  s_id :: int
  s_name :: string
  s_email :: string

record course =
  c_id :: int
  c_code :: string
  c_title :: string

record enrollment =
  e_id :: int
  e_student_id :: int
  e_course_id :: int
  e_enrolled_at :: string

record assignment =
  a_id :: int
  a_title :: string
  a_max_points :: int

record grade =
  g_id :: int
  g_student_id :: int
  g_assignment_id :: int
  g_score :: int
  g_created_at :: "string option"

text \<open>
  A database file holds any of the five tables: \<open>None\<close> is a table that does not exist,
  \<open>Some rows\<close> one that does, its rows in the order of their rowids (the order of
  insertion, as every rowid is assigned by \<^verbatim>\<open>AUTOINCREMENT\<close>).  \<open>seq_t\<close> is the entry
  of table \<open>t\<close> in \<^verbatim>\<open>sqlite_sequence\<close>, \<open>0\<close> when there is none.  \<open>grade_indexes\<close> are
  the names of the indexes on \<^verbatim>\<open>grades\<close>, the only table the programs index.
\<close>

record database =
  students :: "student list option"
  courses :: "course list option"
  enrollments :: "enrollment list option"
  assignments :: "assignment list option"
  grades :: "grade list option"
  seq_students :: int
  seq_courses :: int
  seq_enrollments :: int
  seq_assignments :: int
  seq_grades :: int
  grade_indexes :: "string list"

text \<open>The file after \<^verbatim>\<open>reset_db()\<close>: no table at all.\<close>

definition reset_db :: database where
  "reset_db = \<lparr>students = None, courses = None, enrollments = None, assignments = None,
     grades = None, seq_students = 0, seq_courses = 0, seq_enrollments = 0,
     seq_assignments = 0, seq_grades = 0, grade_indexes = []\<rparr>"

datatype table_name = Students | Courses | Enrollments | Assignments | Grades

text \<open>
  \<^verbatim>\<open>AUTOINCREMENT\<close>: the new rowid is one more than the largest rowid the table ever
  held, the larger of its \<^verbatim>\<open>sqlite_sequence\<close> entry and its present rowids.
\<close>

definition next_rowid :: "int \<Rightarrow> int list \<Rightarrow> int" where
  "next_rowid sq ids = fold max ids sq + 1"

subsection \<open>Data definition statements\<close>

text \<open>
  With foreign keys enforced (every connection comes from \<^verbatim>\<open>connect\<close>, which turns them
  on), deleting rows of a table that other tables reference runs the \<^verbatim>\<open>ON DELETE CASCADE\<close>
  of each of them: a \<^verbatim>\<open>DELETE\<close> on the referencing table, which is prepared with the
  statement and needs every parent that table names.  \<^verbatim>\<open>enrollments\<close> references
  \<^verbatim>\<open>students\<close> and \<^verbatim>\<open>courses\<close>, \<^verbatim>\<open>grades\<close> references \<^verbatim>\<open>students\<close> and \<^verbatim>\<open>assignments\<close>.
  \<open>cascade_prepared t d\<close>: the cascades of a delete on the existing table \<open>t\<close> can be
  prepared; otherwise the statement fails with \<^verbatim>\<open>no such table\<close>, whatever rows it names.
\<close>

fun cascade_prepared :: "table_name \<Rightarrow> database \<Rightarrow> bool" where
  "cascade_prepared Students d =
     ((enrollments d = None \<or> courses d \<noteq> None) \<and> (grades d = None \<or> assignments d \<noteq> None))"
| "cascade_prepared Courses d = (enrollments d = None \<or> students d \<noteq> None)"
| "cascade_prepared Assignments d = (grades d = None \<or> students d \<noteq> None)"
| "cascade_prepared Enrollments d = True"
| "cascade_prepared Grades d = True"

text \<open>
  \<^verbatim>\<open>DROP TABLE IF EXISTS t\<close>: nothing when the table does not exist.  Otherwise, when other
  tables reference it, all its rows are deleted first, with the cascades of that delete
  (an error when they cannot be prepared; the rows of a referencing table go, its
  \<^verbatim>\<open>sqlite_sequence\<close> entry stays); then the table, its \<^verbatim>\<open>sqlite_sequence\<close> entry and its
  indexes go.  A table nothing references is dropped with no delete.
\<close>

fun drop_table_if_exists :: "table_name \<Rightarrow> database \<Rightarrow> error + database" where
  "drop_table_if_exists Students d =
     (case students d of
        None \<Rightarrow> Inr d
      | Some ss \<Rightarrow>
          if \<not> cascade_prepared Students d then Inl OperationalError
          else Inr (d\<lparr>students := None, seq_students := 0,
            enrollments :=
              map_option (filter (\<lambda>e. e_student_id e \<notin> set (map s_id ss))) (enrollments d),
            grades :=
              map_option (filter (\<lambda>g. g_student_id g \<notin> set (map s_id ss))) (grades d)\<rparr>))"
| "drop_table_if_exists Courses d =
     (case courses d of
        None \<Rightarrow> Inr d
      | Some cs \<Rightarrow>
          if \<not> cascade_prepared Courses d then Inl OperationalError
          else Inr (d\<lparr>courses := None, seq_courses := 0,
            enrollments :=
              map_option (filter (\<lambda>e. e_course_id e \<notin> set (map c_id cs))) (enrollments d)\<rparr>))"
| "drop_table_if_exists Assignments d =
     (case assignments d of
        None \<Rightarrow> Inr d
      | Some as \<Rightarrow>
          if \<not> cascade_prepared Assignments d then Inl OperationalError
          else Inr (d\<lparr>assignments := None, seq_assignments := 0,
            grades :=
              map_option (filter (\<lambda>g. g_assignment_id g \<notin> set (map a_id as))) (grades d)\<rparr>))"
| "drop_table_if_exists Enrollments d =
     (case enrollments d of
        None \<Rightarrow> Inr d
      | Some _ \<Rightarrow> Inr (d\<lparr>enrollments := None, seq_enrollments := 0\<rparr>))"
| "drop_table_if_exists Grades d =
     (case grades d of
        None \<Rightarrow> Inr d
      | Some _ \<Rightarrow> Inr (d\<lparr>grades := None, seq_grades := 0, grade_indexes := []\<rparr>))"

text \<open>
  \<^verbatim>\<open>CREATE TABLE t (...)\<close>: an error when a table of that name exists; otherwise the
  table is there, empty, with no \<^verbatim>\<open>sqlite_sequence\<close> entry and no index.
\<close>

fun create_table :: "table_name \<Rightarrow> database \<Rightarrow> error + database" where
  "create_table Students d =
     (if students d \<noteq> None then Inl OperationalError
      else Inr (d\<lparr>students := Some [], seq_students := 0\<rparr>))"
| "create_table Courses d =
     (if courses d \<noteq> None then Inl OperationalError
      else Inr (d\<lparr>courses := Some [], seq_courses := 0\<rparr>))"
| "create_table Enrollments d =
     (if enrollments d \<noteq> None then Inl OperationalError
      else Inr (d\<lparr>enrollments := Some [], seq_enrollments := 0\<rparr>))"
| "create_table Assignments d =
     (if assignments d \<noteq> None then Inl OperationalError
      else Inr (d\<lparr>assignments := Some [], seq_assignments := 0\<rparr>))"
| "create_table Grades d =
     (if grades d \<noteq> None then Inl OperationalError
      else Inr (d\<lparr>grades := Some [], seq_grades := 0, grade_indexes := []\<rparr>))"

text \<open>\<^verbatim>\<open>CREATE INDEX name ON grades(...)\<close>\<close>

definition create_index :: "string \<Rightarrow> database \<Rightarrow> error + database" where
  "create_index name d =
     (if grades d = None \<or> name \<in> set (grade_indexes d) then Inl OperationalError
      else Inr (d\<lparr>grade_indexes := grade_indexes d @ [name]\<rparr>))"

subsection \<open>Data manipulation statements\<close>

text \<open>
  Each statement is a function of the database that returns \<open>Inl\<close> the error or \<open>Inr\<close> the
  statement's result (\<^verbatim>\<open>lastrowid\<close> or \<^verbatim>\<open>rowcount\<close>) and the new database.  A statement
  that names a table that does not exist (its own, or the parent of one of its foreign
  keys) cannot be prepared: \<open>OperationalError\<close>.  A row that breaks \<^verbatim>\<open>UNIQUE\<close>,
  \<^verbatim>\<open>CHECK\<close> or \<^verbatim>\<open>FOREIGN KEY\<close> is \<open>IntegrityError\<close> and leaves the database as it was.
\<close>

text \<open>\<^verbatim>\<open>INSERT INTO students (name, email) VALUES (?, ?)\<close>\<close>

definition insert_student :: "string \<Rightarrow> string \<Rightarrow> database \<Rightarrow> error + int \<times> database" where
  "insert_student name email d =
     (case students d of
        None \<Rightarrow> Inl OperationalError
      | Some ss \<Rightarrow>
          if email \<in> set (map s_email ss) then Inl IntegrityError
          else (let i = next_rowid (seq_students d) (map s_id ss)
                in Inr (i, d\<lparr>students := Some (ss @ [\<lparr>s_id = i, s_name = name, s_email = email\<rparr>]),
                             seq_students := i\<rparr>)))"

text \<open>\<^verbatim>\<open>INSERT INTO courses (code, title) VALUES (?, ?)\<close>\<close>

definition insert_course :: "string \<Rightarrow> string \<Rightarrow> database \<Rightarrow> error + int \<times> database" where
  "insert_course code title d =
     (case courses d of
        None \<Rightarrow> Inl OperationalError
      | Some cs \<Rightarrow>
          if code \<in> set (map c_code cs) then Inl IntegrityError
          else (let i = next_rowid (seq_courses d) (map c_id cs)
                in Inr (i, d\<lparr>courses := Some (cs @ [\<lparr>c_id = i, c_code = code, c_title = title\<rparr>]),
                             seq_courses := i\<rparr>)))"

text \<open>\<^verbatim>\<open>INSERT INTO assignments (title, max_points) VALUES (?, ?)\<close>\<close>

definition insert_assignment :: "string \<Rightarrow> int \<Rightarrow> database \<Rightarrow> error + int \<times> database" where
  "insert_assignment title max_points d =
     (case assignments d of
        None \<Rightarrow> Inl OperationalError
      | Some as \<Rightarrow>
          if \<not> max_points > 0 then Inl IntegrityError
          else (let i = next_rowid (seq_assignments d) (map a_id as)
                in Inr (i, d\<lparr>assignments :=
                               Some (as @ [\<lparr>a_id = i, a_title = title, a_max_points = max_points\<rparr>]),
                             seq_assignments := i\<rparr>)))"

text \<open>
  \<^verbatim>\<open>INSERT INTO enrollments (student_id, course_id) VALUES (?, ?)\<close>; \<open>now\<close> is what
  \<^verbatim>\<open>datetime('now')\<close> returns.
\<close>

definition insert_enrollment :: "int \<Rightarrow> int \<Rightarrow> string \<Rightarrow> database \<Rightarrow> error + int \<times> database" where
  "insert_enrollment student_id course_id now d =
     (case (enrollments d, students d, courses d) of
        (Some es, Some ss, Some cs) \<Rightarrow>
          if (student_id, course_id) \<in> set (map (\<lambda>e. (e_student_id e, e_course_id e)) es)
             \<or> student_id \<notin> set (map s_id ss) \<or> course_id \<notin> set (map c_id cs)
          then Inl IntegrityError
          else (let i = next_rowid (seq_enrollments d) (map e_id es)
                in Inr (i, d\<lparr>enrollments := Some (es @ [\<lparr>e_id = i, e_student_id = student_id,
                               e_course_id = course_id, e_enrolled_at = now\<rparr>]),
                             seq_enrollments := i\<rparr>))
      | _ \<Rightarrow> Inl OperationalError)"

text \<open>
  \<^verbatim>\<open>INSERT INTO grades (student_id, assignment_id, score) VALUES (?, ?, ?)\<close>; \<open>created\<close> is
  the default the table supplies for \<^verbatim>\<open>created_at\<close>.
\<close>

definition insert_grade ::
  "int \<Rightarrow> int \<Rightarrow> int \<Rightarrow> string option \<Rightarrow> database \<Rightarrow> error + int \<times> database" where
  "insert_grade student_id assignment_id score created d =
     (case (grades d, students d, assignments d) of
        (Some gs, Some ss, Some as) \<Rightarrow>
          if \<not> score \<ge> 0
             \<or> (student_id, assignment_id)
                  \<in> set (map (\<lambda>g. (g_student_id g, g_assignment_id g)) gs)
             \<or> student_id \<notin> set (map s_id ss) \<or> assignment_id \<notin> set (map a_id as)
          then Inl IntegrityError
          else (let i = next_rowid (seq_grades d) (map g_id gs)
                in Inr (i, d\<lparr>grades := Some (gs @ [\<lparr>g_id = i, g_student_id = student_id,
                               g_assignment_id = assignment_id, g_score = score,
                               g_created_at = created\<rparr>]),
                             seq_grades := i\<rparr>))
      | _ \<Rightarrow> Inl OperationalError)"

text \<open>\<^verbatim>\<open>UPDATE students SET name = ? WHERE id = ?\<close>; the result is the number of rows matched.\<close>

definition update_student_name :: "string \<Rightarrow> int \<Rightarrow> database \<Rightarrow> error + int \<times> database" where
  "update_student_name new_name student_id d =
     (case students d of
        None \<Rightarrow> Inl OperationalError
      | Some ss \<Rightarrow>
          Inr (int (length (filter (\<lambda>s. s_id s = student_id) ss)),
               d\<lparr>students :=
                   Some (map (\<lambda>s. if s_id s = student_id then s\<lparr>s_name := new_name\<rparr> else s) ss)\<rparr>))"

text \<open>
  \<^verbatim>\<open>DELETE FROM students WHERE id = ?\<close>: an error when the table does not exist or the
  cascades cannot be prepared, also for an id no student has.  The result counts the
  students deleted, not the rows the cascade removes.  The cascade follows the deleted
  rows: with no student deleted no other table changes.
\<close>

definition delete_student_row :: "int \<Rightarrow> database \<Rightarrow> error + int \<times> database" where
  "delete_student_row student_id d =
     (case students d of
        None \<Rightarrow> Inl OperationalError
      | Some ss \<Rightarrow>
          if \<not> cascade_prepared Students d then Inl OperationalError
          else
          (let gone = filter (\<lambda>s. s_id s = student_id) ss
           in Inr (int (length gone),
                if gone = [] then d
                else d\<lparr>students := Some (filter (\<lambda>s. s_id s \<noteq> student_id) ss),
                       enrollments :=
                         map_option (filter (\<lambda>e. e_student_id e \<noteq> student_id)) (enrollments d),
                       grades :=
                         map_option (filter (\<lambda>g. g_student_id g \<noteq> student_id)) (grades d)\<rparr>)))"

subsection \<open>Connections and transactions\<close>

text \<open>
  A connection sees the database \<open>db\<close>; while a transaction is open \<open>snapshot\<close> holds the
  database as it was at its \<^verbatim>\<open>BEGIN\<close>, which \<^verbatim>\<open>ROLLBACK\<close> restores.  There is one
  connection per run, so what it sees is the whole state.
\<close>

record conn =
  db :: database
  snapshot :: "database option"

definition connect :: "database \<Rightarrow> conn" where
  "connect d = \<lparr>db = d, snapshot = None\<rparr>"

text \<open>\<^verbatim>\<open>conn.execute("BEGIN;")\<close>, \<^verbatim>\<open>conn.execute("COMMIT;")\<close>, \<^verbatim>\<open>conn.execute("ROLLBACK;")\<close>\<close>

definition execute_begin :: "conn \<Rightarrow> conn \<times> (error + unit)" where
  "execute_begin c =
     (case snapshot c of
        None \<Rightarrow> (c\<lparr>snapshot := Some (db c)\<rparr>, Inr ())
      | Some _ \<Rightarrow> (c, Inl OperationalError))"

definition execute_commit :: "conn \<Rightarrow> conn \<times> (error + unit)" where
  "execute_commit c =
     (case snapshot c of
        None \<Rightarrow> (c, Inl OperationalError)
      | Some _ \<Rightarrow> (c\<lparr>snapshot := None\<rparr>, Inr ()))"

definition execute_rollback :: "conn \<Rightarrow> conn \<times> (error + unit)" where
  "execute_rollback c =
     (case snapshot c of
        None \<Rightarrow> (c, Inl OperationalError)
      | Some d \<Rightarrow> (\<lparr>db = d, snapshot = None\<rparr>, Inr ()))"

text \<open>\<^verbatim>\<open>conn.commit()\<close>: commits the open transaction, nothing when there is none.\<close>

definition commit :: "conn \<Rightarrow> conn" where
  "commit c = c\<lparr>snapshot := None\<rparr>"

text \<open>
  \<^verbatim>\<open>conn.execute\<close> of an \<^verbatim>\<open>INSERT\<close>, \<^verbatim>\<open>UPDATE\<close> or \<^verbatim>\<open>DELETE\<close>.  The \<^verbatim>\<open>sqlite3\<close>
  module prepares the statement and then, when no transaction is open, opens one before
  running it.  A statement that fails changes no row and leaves the transaction open.
\<close>

definition implicit_begin :: "conn \<Rightarrow> conn" where
  "implicit_begin c = (case snapshot c of None \<Rightarrow> c\<lparr>snapshot := Some (db c)\<rparr> | Some _ \<Rightarrow> c)"

definition execute_dml :: "(database \<Rightarrow> error + 'a \<times> database) \<Rightarrow> conn \<Rightarrow> conn \<times> (error + 'a)" where
  "execute_dml stmt c =
     (case stmt (db c) of
        Inl e \<Rightarrow> (if e = OperationalError then c else implicit_begin c, Inl e)
      | Inr (x, d) \<Rightarrow> ((implicit_begin c)\<lparr>db := d\<rparr>, Inr x))"

text \<open>
  \<^verbatim>\<open>conn.executescript(sql)\<close>: commits the open transaction, then runs the statements one
  by one, each committed as it ends; the first error stops the script.
\<close>

fun run_script :: "(database \<Rightarrow> error + database) list \<Rightarrow> database \<Rightarrow> database \<times> (error + unit)" where
  "run_script [] d = (d, Inr ())"
| "run_script (stmt # stmts) d =
     (case stmt d of Inl e \<Rightarrow> (d, Inl e) | Inr d' \<Rightarrow> run_script stmts d')"

definition executescript :: "(database \<Rightarrow> error + database) list \<Rightarrow> conn \<Rightarrow> conn \<times> (error + unit)" where
  "executescript stmts c =
     (case run_script stmts (db c) of (d, r) \<Rightarrow> (\<lparr>db = d, snapshot = None\<rparr>, r))"

section \<open>The programs\<close>

subsection \<open>Values and arithmetic of the queries\<close>

text \<open>
  The values a query returns.  \<^verbatim>\<open>REAL\<close> values are modelled by exact rationals: the
  quotients, means and roundings below are those of the numbers, without the rounding
  error of IEEE doubles.
\<close>

datatype sql_value = Null | Integer int | Real rat | Text string

text \<open>\<^verbatim>\<open>1.0 * x / y\<close>: a real quotient, \<^verbatim>\<open>NULL\<close> when the divisor is zero.\<close>

definition sql_div :: "int \<Rightarrow> int \<Rightarrow> rat option" where
  "sql_div x y = (if y = 0 then None else Some (of_int x / of_int y))"

text \<open>\<^verbatim>\<open>ROUND(x, 1)\<close>: to the nearest tenth, halves away from zero.\<close>

definition round1 :: "rat \<Rightarrow> rat" where
  "round1 x = (if x \<ge> 0 then of_int \<lfloor>x * 10 + 1 / 2\<rfloor> / 10
               else - (of_int \<lfloor>- x * 10 + 1 / 2\<rfloor> / 10))"

text \<open>\<^verbatim>\<open>AVG\<close>: the mean of the values that are not \<^verbatim>\<open>NULL\<close>, \<^verbatim>\<open>NULL\<close> when there is none.\<close>

definition avg :: "rat option list \<Rightarrow> rat option" where
  "avg vs = (let xs = concat (map (\<lambda>v. case v of None \<Rightarrow> [] | Some x \<Rightarrow> [x]) vs)
             in if xs = [] then None else Some (sum_list xs / of_nat (length xs)))"

definition real_value :: "rat option \<Rightarrow> sql_value" where
  "real_value v = (case v of None \<Rightarrow> Null | Some x \<Rightarrow> Real x)"

text \<open>
  \<^verbatim>\<open>ORDER BY key DESC\<close>: descending, rows of equal key in the order they had
  (\<^verbatim>\<open>NULL\<close>, the least value, comes last).  \<^verbatim>\<open>ORDER BY key\<close> is \<open>sort_key\<close>.
\<close>

definition sort_key_desc :: "('a \<Rightarrow> 'k::linorder) \<Rightarrow> 'a list \<Rightarrow> 'a list" where
  "sort_key_desc f xs = rev (sort_key f (rev xs))"

subsection \<open>Sequencing calls that may raise\<close>

text \<open>
  A call on the connection returns the connection as the call left it and either the
  exception raised or the value returned.  \<open>and_then m f\<close> is \<open>m\<close> followed by \<open>f\<close>,
  skipped when \<open>m\<close> raised.
\<close>

definition and_then ::
  "conn \<times> (error + 'a) \<Rightarrow> (conn \<Rightarrow> 'a \<Rightarrow> conn \<times> (error + 'b)) \<Rightarrow> conn \<times> (error + 'b)" where
  "and_then m f = (case m of (c, Inl e) \<Rightarrow> (c, Inl e) | (c, Inr x) \<Rightarrow> f c x)"

text \<open>
  \<^verbatim>\<open>conn.executemany(sql, params)\<close> on a non-empty list: the statement once per parameter
  tuple, in one transaction, ending at the first error.
\<close>

fun executemany ::
  "('p \<Rightarrow> database \<Rightarrow> error + 'a \<times> database) \<Rightarrow> 'p list \<Rightarrow> conn \<Rightarrow> conn \<times> (error + unit)" where
  "executemany stmt [] c = (c, Inr ())"
| "executemany stmt (p # ps) c =
     and_then (execute_dml (stmt p) c) (\<lambda>c' _. executemany stmt ps c')"

subsection \<open>\<^verbatim>\<open>create_schema\<close>, in its three variants\<close>

definition demo_create_schema :: "conn \<Rightarrow> conn \<times> (error + unit)" where
  "demo_create_schema c = executescript
     [drop_table_if_exists Grades, drop_table_if_exists Assignments,
      drop_table_if_exists Students,
      create_table Students, create_table Assignments, create_table Grades,
      create_index ''idx_grades_student_id'', create_index ''idx_grades_assignment_id''] c"

definition exercises_create_schema :: "conn \<Rightarrow> conn \<times> (error + unit)" where
  "exercises_create_schema c = executescript
     [create_table Students, create_table Courses, create_table Enrollments] c"

definition homework_create_schema :: "conn \<Rightarrow> conn \<times> (error + unit)" where
  "homework_create_schema c = executescript
     [drop_table_if_exists Students, drop_table_if_exists Assignments,
      drop_table_if_exists Grades,
      create_table Students, create_table Assignments, create_table Grades] c"

subsection \<open>\<^verbatim>\<open>exercises.py\<close>\<close>

text \<open>\<^verbatim>\<open>add_student\<close> (the same statement in \<^verbatim>\<open>homework.py\<close>): returns \<^verbatim>\<open>cursor.lastrowid\<close>.\<close>

definition add_student :: "conn \<Rightarrow> string \<Rightarrow> string \<Rightarrow> conn \<times> (error + int)" where
  "add_student c name email = execute_dml (insert_student name email) c"

definition student_row :: "student \<Rightarrow> sql_value row" where
  "student_row s = [(''id'', Integer (s_id s)), (''name'', Text (s_name s)),
     (''email'', Text (s_email s))]"

text \<open>
  \<^verbatim>\<open>find_student_by_email\<close>: \<^verbatim>\<open>fetchone()\<close> of
  \<^verbatim>\<open>SELECT id, name, email From students where email = ?\<close>, the first matching row or
  \<^verbatim>\<open>None\<close>.
\<close>

definition find_student_by_email :: "conn \<Rightarrow> string \<Rightarrow> error + sql_value row option" where
  "find_student_by_email c email =
     (case students (db c) of
        None \<Rightarrow> Inl OperationalError
      | Some ss \<Rightarrow>
          Inr (case filter (\<lambda>s. s_email s = email) ss of
                 [] \<Rightarrow> None
               | s # _ \<Rightarrow> Some (student_row s)))"

text \<open>\<^verbatim>\<open>rename_student\<close> and \<^verbatim>\<open>delete_student\<close>: return \<^verbatim>\<open>cursor.rowcount\<close>.\<close>

definition rename_student :: "conn \<Rightarrow> int \<Rightarrow> string \<Rightarrow> conn \<times> (error + int)" where
  "rename_student c student_id new_name = execute_dml (update_student_name new_name student_id) c"

definition delete_student :: "conn \<Rightarrow> int \<Rightarrow> conn \<times> (error + int)" where
  "delete_student c student_id = execute_dml (delete_student_row student_id) c"

text \<open>
  \<^verbatim>\<open>list_enrollments\<close>: \<^verbatim>\<open>enrollments e JOIN students s JOIN courses c\<close>,
  \<^verbatim>\<open>ORDER BY s.name, c.code\<close>.
\<close>

definition enrollment_row :: "student \<times> course \<Rightarrow> sql_value row" where
  "enrollment_row = (\<lambda>(s, c). [(''student_name'', Text (s_name s)),
     (''course_code'', Text (c_code c)), (''course_title'', Text (c_title c))])"

definition list_enrollments :: "conn \<Rightarrow> error + sql_value row list" where
  "list_enrollments c =
     (case (enrollments (db c), students (db c), courses (db c)) of
        (Some es, Some ss, Some cs) \<Rightarrow>
          Inr (map enrollment_row
                (sort_key (\<lambda>(s, c). (s_name s, c_code c))
                  [(s, c). e \<leftarrow> es, s \<leftarrow> ss, s_id s = e_student_id e,
                           c \<leftarrow> cs, c_id c = e_course_id e]))
      | _ \<Rightarrow> Inl OperationalError)"

text \<open>\<^verbatim>\<open>enroll_student\<close>: returns nothing and does not commit.\<close>

definition enroll_student :: "conn \<Rightarrow> int \<Rightarrow> int \<Rightarrow> string \<Rightarrow> conn \<times> (error + unit)" where
  "enroll_student c student_id course_id now =
     and_then (execute_dml (insert_enrollment student_id course_id now) c) (\<lambda>c' _. (c', Inr ()))"

definition seed_courses :: "conn \<Rightarrow> conn \<times> (error + unit)" where
  "seed_courses c = executemany (\<lambda>(code, title). insert_course code title)
     [(''CS101'', ''Intro to Programming''), (''CS205'', ''Web Development''),
      (''CS310'', ''Data Structures'')] c"

text \<open>
  What \<^verbatim>\<open>main\<close> does before its transaction block: the schema, the three courses and
  two students, committed.
\<close>

definition exercises_main_setup :: "conn \<Rightarrow> conn \<times> (error + int \<times> int)" where
  "exercises_main_setup c0 =
     and_then (exercises_create_schema c0) (\<lambda>c _.
     and_then (seed_courses c) (\<lambda>c _.
     and_then (add_student (commit c) ''Ava'' ''ava@example.com'') (\<lambda>c s1.
     and_then (add_student c ''Noah'' ''noah@example.com'') (\<lambda>c s2.
     (commit c, Inr (s1, s2))))))"

text \<open>
  The transaction block of \<^verbatim>\<open>main\<close>, which enrolls the same pair twice:
  \<^verbatim>\<open>
  try:
      conn.execute("BEGIN;")
      enroll_student(conn, s1, course_cs205)
      enroll_student(conn, s1, course_cs205)  # duplicate on purpose
      conn.execute("COMMIT;")
  except sqlite3.IntegrityError as e:
      ...
      conn.execute("ROLLBACK;")
  \<close>
  \<open>now1\<close> and \<open>now2\<close> are the times of the two inserts.  Any other exception escapes.
\<close>

definition main_duplicate_enrollment ::
  "conn \<Rightarrow> int \<Rightarrow> int \<Rightarrow> string \<Rightarrow> string \<Rightarrow> conn \<times> (error + unit)" where
  "main_duplicate_enrollment c s1 course_cs205 now1 now2 =
     (case and_then (execute_begin c) (\<lambda>c _.
             and_then (enroll_student c s1 course_cs205 now1) (\<lambda>c _.
             and_then (enroll_student c s1 course_cs205 now2) (\<lambda>c _.
             execute_commit c))) of
        (c', Inl e) \<Rightarrow> (if e = IntegrityError then execute_rollback c' else (c', Inl e))
      | (c', Inr u) \<Rightarrow> (c', Inr u))"

subsection \<open>\<^verbatim>\<open>homework.py\<close>\<close>

definition add_assignment :: "conn \<Rightarrow> string \<Rightarrow> int \<Rightarrow> conn \<times> (error + int)" where
  "add_assignment c title max_points = execute_dml (insert_assignment title max_points) c"

definition record_grade :: "conn \<Rightarrow> int \<Rightarrow> int \<Rightarrow> int \<Rightarrow> conn \<times> (error + int)" where
  "record_grade c student_id assignment_id score =
     execute_dml (insert_grade student_id assignment_id score None) c"

text \<open>\<^verbatim>\<open>list_students\<close>: \<^verbatim>\<open>SELECT * FROM students ORDER BY name\<close>\<close>

definition list_students :: "conn \<Rightarrow> error + sql_value row list" where
  "list_students c =
     (case students (db c) of
        None \<Rightarrow> Inl OperationalError
      | Some ss \<Rightarrow> Inr (map student_row (sort_key s_name ss)))"

text \<open>
  \<^verbatim>\<open>student_grade_report\<close>: \<^verbatim>\<open>grades g JOIN assignments a WHERE student_id = ?\<close>, with
  no \<^verbatim>\<open>ORDER BY\<close>: the rows come as the engine visits them, here in the order of the
  \<^verbatim>\<open>grades\<close> table.
\<close>

definition report_row :: "grade \<times> assignment \<Rightarrow> sql_value row" where
  "report_row = (\<lambda>(g, a). [(''assignment_title'', Text (a_title a)),
     (''score'', Integer (g_score g)), (''max_points'', Integer (a_max_points a)),
     (''percent'', real_value
        (map_option (\<lambda>q. round1 (q * 100)) (sql_div (g_score g) (a_max_points a))))])"

definition student_grade_report :: "conn \<Rightarrow> int \<Rightarrow> error + sql_value row list" where
  "student_grade_report c student_id =
     (case (grades (db c), assignments (db c)) of
        (Some gs, Some as) \<Rightarrow>
          Inr (map report_row
                [(g, a). g \<leftarrow> gs, g_student_id g = student_id,
                         a \<leftarrow> as, a_id a = g_assignment_id g])
      | _ \<Rightarrow> Inl OperationalError)"

text \<open>
  \<^verbatim>\<open>leaderboard\<close> (the query of \<^verbatim>\<open>demo_aggregation\<close> too):
  \<^verbatim>\<open>grades g JOIN students s JOIN assignments a GROUP BY s.id ORDER BY avg_percent DESC\<close>.
  \<open>graded\<close> is the join; there is one group per \<^verbatim>\<open>s.id\<close> in it, whose \<^verbatim>\<open>s.name\<close> is the
  name in the group's first row (\<^verbatim>\<open>s.id\<close> is the primary key: one name per group) and
  whose \<^verbatim>\<open>avg_percent\<close> is \<^verbatim>\<open>ROUND(AVG(1.0 * g.score / a.max_points) * 100, 1)\<close>.
\<close>

definition graded :: "grade list \<Rightarrow> student list \<Rightarrow> assignment list \<Rightarrow> (grade \<times> student \<times> assignment) list" where
  "graded gs ss as = [(g, s, a). g \<leftarrow> gs, s \<leftarrow> ss, s_id s = g_student_id g,
                                 a \<leftarrow> as, a_id a = g_assignment_id g]"

definition avg_percent :: "(grade \<times> student \<times> assignment) list \<Rightarrow> rat option" where
  "avg_percent grp =
     map_option round1 (map_option (\<lambda>x. x * 100)
       (avg (map (\<lambda>(g, s, a). sql_div (g_score g) (a_max_points a)) grp)))"

definition group_by_student ::
  "(grade \<times> student \<times> assignment) list \<Rightarrow> (string \<times> rat option) list" where
  "group_by_student js =
     concat (map (\<lambda>k. case filter (\<lambda>(g, s, a). s_id s = k) js of
                         [] \<Rightarrow> []
                       | (g, s, a) # rest \<Rightarrow> [(s_name s, avg_percent ((g, s, a) # rest))])
                 (sort (remdups (map (\<lambda>(g, s, a). s_id s) js))))"

definition leaderboard_row :: "string \<times> rat option \<Rightarrow> sql_value row" where
  "leaderboard_row = (\<lambda>(name, p). [(''student'', Text name), (''avg_percent'', real_value p)])"

definition leaderboard :: "conn \<Rightarrow> error + sql_value row list" where
  "leaderboard c =
     (case (grades (db c), students (db c), assignments (db c)) of
        (Some gs, Some ss, Some as) \<Rightarrow>
          Inr (map leaderboard_row (sort_key_desc snd (group_by_student (graded gs ss as))))
      | _ \<Rightarrow> Inl OperationalError)"

text \<open>
  The data \<^verbatim>\<open>main\<close> of \<^verbatim>\<open>homework.py\<close> builds: the schema, three students, three
  assignments and seven grades, each insert with the ids the earlier ones returned.
\<close>

definition homework_main_seed :: "conn \<Rightarrow> conn \<times> (error + unit)" where
  "homework_main_seed c0 =
     and_then (homework_create_schema c0) (\<lambda>c _.
     and_then (add_student (commit c) ''Ava'' ''ava@example.com'') (\<lambda>c s_ava.
     and_then (add_student c ''Noah'' ''noah@example.com'') (\<lambda>c s_noah.
     and_then (add_student c ''Maya'' ''maya@example.com'') (\<lambda>c s_maya.
     and_then (add_assignment c ''Quiz 1'' 10) (\<lambda>c a_q1.
     and_then (add_assignment c ''Homework 1'' 100) (\<lambda>c a_hw1.
     and_then (add_assignment c ''Midterm'' 200) (\<lambda>c a_mid.
     and_then (record_grade c s_ava a_q1 9) (\<lambda>c _.
     and_then (record_grade c s_ava a_hw1 95) (\<lambda>c _.
     and_then (record_grade c s_noah a_q1 7) (\<lambda>c _.
     and_then (record_grade c s_noah a_hw1 88) (\<lambda>c _.
     and_then (record_grade c s_maya a_q1 10) (\<lambda>c _.
     and_then (record_grade c s_maya a_hw1 92) (\<lambda>c _.
     and_then (record_grade c s_maya a_mid 180) (\<lambda>c _.
     (commit c, Inr ())))))))))))))))"

subsection \<open>\<^verbatim>\<open>demo.py\<close>\<close>

text \<open>
  \<^verbatim>\<open>seed_data\<close>: three students and three assignments by \<^verbatim>\<open>executemany\<close>, then the
  dictionaries from name to id and from title to id (a later row replaces an earlier one
  of the same key), then seven grades whose ids are read from the dictionaries.
  \<open>now i\<close> is the value of \<^verbatim>\<open>datetime('now')\<close> at the insert of the grade of index \<open>i\<close>.
\<close>

definition dict_get :: "(string \<times> int) list \<Rightarrow> string \<Rightarrow> error + int" where
  "dict_get d k = (case map_of (rev d) k of None \<Rightarrow> Inl KeyError | Some v \<Rightarrow> Inr v)"

definition seed_data :: "conn \<Rightarrow> (nat \<Rightarrow> string) \<Rightarrow> conn \<times> (error + unit)" where
  "seed_data c0 now =
     and_then (executemany (\<lambda>(name, email). insert_student name email)
        [(''Ava'', ''ava@example.com''), (''Noah'', ''noah@example.com''),
         (''Maya'', ''maya@example.com'')] c0) (\<lambda>c _.
     and_then (executemany (\<lambda>(title, max_points). insert_assignment title max_points)
        [(''Quiz 1'', 10), (''Homework 1'', 100), (''Midterm'', 200)] c) (\<lambda>c _.
     case (students (db c), assignments (db c)) of
       (Some ss, Some as) \<Rightarrow>
         (let student_ids = map (\<lambda>s. (s_name s, s_id s)) ss;
              assignment_ids = map (\<lambda>a. (a_title a, a_id a)) as
          in case traverse (\<lambda>(name, title, score).
                    case dict_get student_ids name of
                      Inl e \<Rightarrow> Inl e
                    | Inr s \<Rightarrow> (case dict_get assignment_ids title of
                        Inl e \<Rightarrow> Inl e
                      | Inr a \<Rightarrow> Inr (s, a, score)))
                  [(''Ava'', ''Quiz 1'', 9), (''Ava'', ''Homework 1'', 95),
                   (''Noah'', ''Quiz 1'', 7), (''Noah'', ''Homework 1'', 88),
                   (''Maya'', ''Quiz 1'', 10), (''Maya'', ''Homework 1'', 92),
                   (''Maya'', ''Midterm'', 180)] of
               Inl e \<Rightarrow> (c, Inl e)
             | Inr rows \<Rightarrow>
                 executemany (\<lambda>(i, s, a, score). insert_grade s a score (Some (now i)))
                   (enumerate 0 rows) c)
     | _ \<Rightarrow> (c, Inl OperationalError)))"

text \<open>\<^verbatim>\<open>main\<close> of \<^verbatim>\<open>demo.py\<close> up to its queries: schema, seed, commit.\<close>

definition demo_main_seed :: "conn \<Rightarrow> (nat \<Rightarrow> string) \<Rightarrow> conn \<times> (error + unit)" where
  "demo_main_seed c0 now =
     and_then (demo_create_schema c0) (\<lambda>c _.
     and_then (seed_data c now) (\<lambda>c _. (commit c, Inr ())))"

text \<open>The query of \<^verbatim>\<open>demo_join\<close>: \<^verbatim>\<open>ORDER BY s.name, a.title\<close>.\<close>

definition join_row :: "grade \<times> student \<times> assignment \<Rightarrow> sql_value row" where
  "join_row = (\<lambda>(g, s, a). [(''student'', Text (s_name s)), (''assignment'', Text (a_title a)),
     (''score'', Integer (g_score g))])"

definition demo_join_query :: "conn \<Rightarrow> error + sql_value row list" where
  "demo_join_query c =
     (case (grades (db c), students (db c), assignments (db c)) of
        (Some gs, Some ss, Some as) \<Rightarrow>
          Inr (map join_row (sort_key (\<lambda>(g, s, a). (s_name s, a_title a)) (graded gs ss as)))
      | _ \<Rightarrow> Inl OperationalError)"

definition demo_join :: "(sql_value \<Rightarrow> string) \<Rightarrow> conn \<Rightarrow> error + string list" where
  "demo_join str c =
     (case demo_join_query c of
        Inl e \<Rightarrow> Inl e
      | Inr rows \<Rightarrow> print_rows str ''Grades (JOIN across 3 tables)'' rows)"


text \<open>
  \<^verbatim>\<open>demo_transaction_rollback\<close>: takes the pair of some existing grade (\<^verbatim>\<open>LIMIT 1\<close>
  with no order; here the first row of the table), asserts there is one, and inserts the
  pair again inside a transaction; \<^verbatim>\<open>IntegrityError\<close> is caught and answered by
  \<^verbatim>\<open>ROLLBACK\<close>.
\<close>

definition demo_transaction_rollback :: "conn \<Rightarrow> string \<Rightarrow> conn \<times> (error + unit)" where
  "demo_transaction_rollback c now =
     (case grades (db c) of
        None \<Rightarrow> (c, Inl OperationalError)
      | Some [] \<Rightarrow> (c, Inl AssertionError)
      | Some (existing # _) \<Rightarrow>
          (case and_then (execute_begin c) (\<lambda>c _.
                  and_then (execute_dml (insert_grade (g_student_id existing)
                              (g_assignment_id existing) 0 (Some now)) c) (\<lambda>c _.
                  execute_commit c)) of
             (c', Inl e) \<Rightarrow> (if e = IntegrityError then execute_rollback c' else (c', Inl e))
           | (c', Inr u) \<Rightarrow> (c', Inr u)))"

text \<open>\<^verbatim>\<open>SELECT COUNT(*) AS n FROM grades\<close>, as \<^verbatim>\<open>main\<close> reads it after the rollback.\<close>

definition count_grades :: "conn \<Rightarrow> error + int" where
  "count_grades c =
     (case grades (db c) of None \<Rightarrow> Inl OperationalError | Some gs \<Rightarrow> Inr (int (length gs)))"

section \<open>The databases the programs build\<close>

text \<open>\<^verbatim>\<open>main\<close> of \<^verbatim>\<open>exercises.py\<close>, from a fresh file, up to its transaction block.\<close>

definition exercises_db :: database where
  "exercises_db = \<lparr>students =
       Some [\<lparr>s_id = 1, s_name = ''Ava'', s_email = ''ava@example.com''\<rparr>,
             \<lparr>s_id = 2, s_name = ''Noah'', s_email = ''noah@example.com''\<rparr>],
     courses =
       Some [\<lparr>c_id = 1, c_code = ''CS101'', c_title = ''Intro to Programming''\<rparr>,
             \<lparr>c_id = 2, c_code = ''CS205'', c_title = ''Web Development''\<rparr>,
             \<lparr>c_id = 3, c_code = ''CS310'', c_title = ''Data Structures''\<rparr>],
     enrollments = Some [], assignments = None, grades = None,
     seq_students = 2, seq_courses = 3, seq_enrollments = 0, seq_assignments = 0,
     seq_grades = 0, grade_indexes = []\<rparr>"

text \<open>
  The same database once \<^verbatim>\<open>main\<close> has enrolled Ava in CS205, with Noah enrolled in CS101
  as well.
\<close>

definition enrolled_db :: database where
  "enrolled_db = exercises_db\<lparr>enrollments :=
       Some [\<lparr>e_id = 1, e_student_id = 1, e_course_id = 2, e_enrolled_at = ''2026-01-01 12:00:00''\<rparr>,
             \<lparr>e_id = 2, e_student_id = 2, e_course_id = 1, e_enrolled_at = ''2026-01-01 12:00:01''\<rparr>],
     seq_enrollments := 2\<rparr>"

text \<open>\<^verbatim>\<open>main\<close> of \<^verbatim>\<open>homework.py\<close>, from a fresh file, up to its reports.\<close>

definition homework_db :: database where
  "homework_db = \<lparr>students =
       Some [\<lparr>s_id = 1, s_name = ''Ava'', s_email = ''ava@example.com''\<rparr>,
             \<lparr>s_id = 2, s_name = ''Noah'', s_email = ''noah@example.com''\<rparr>,
             \<lparr>s_id = 3, s_name = ''Maya'', s_email = ''maya@example.com''\<rparr>],
     courses = None, enrollments = None,
     assignments =
       Some [\<lparr>a_id = 1, a_title = ''Quiz 1'', a_max_points = 10\<rparr>,
             \<lparr>a_id = 2, a_title = ''Homework 1'', a_max_points = 100\<rparr>,
             \<lparr>a_id = 3, a_title = ''Midterm'', a_max_points = 200\<rparr>],
     grades =
       Some [\<lparr>g_id = 1, g_student_id = 1, g_assignment_id = 1, g_score = 9, g_created_at = None\<rparr>,
             \<lparr>g_id = 2, g_student_id = 1, g_assignment_id = 2, g_score = 95, g_created_at = None\<rparr>,
             \<lparr>g_id = 3, g_student_id = 2, g_assignment_id = 1, g_score = 7, g_created_at = None\<rparr>,
             \<lparr>g_id = 4, g_student_id = 2, g_assignment_id = 2, g_score = 88, g_created_at = None\<rparr>,
             \<lparr>g_id = 5, g_student_id = 3, g_assignment_id = 1, g_score = 10, g_created_at = None\<rparr>,
             \<lparr>g_id = 6, g_student_id = 3, g_assignment_id = 2, g_score = 92, g_created_at = None\<rparr>,
             \<lparr>g_id = 7, g_student_id = 3, g_assignment_id = 3, g_score = 180, g_created_at = None\<rparr>],
     seq_students = 3, seq_courses = 0, seq_enrollments = 0, seq_assignments = 3,
     seq_grades = 7, grade_indexes = []\<rparr>"

text \<open>
  \<^verbatim>\<open>main\<close> of \<^verbatim>\<open>demo.py\<close>, from a fresh file, up to its queries: the same rows, with
  their timestamps and the two indexes.
\<close>

definition demo_db :: "(nat \<Rightarrow> string) \<Rightarrow> database" where
  "demo_db now = homework_db\<lparr>grades :=
       map_option (map (\<lambda>g. g\<lparr>g_created_at := Some (now (nat (g_id g - 1)))\<rparr>))
         (grades homework_db),
     grade_indexes := [''idx_grades_student_id'', ''idx_grades_assignment_id'']\<rparr>"

text \<open>A clock for the examples: every insert at the same second.\<close>

definition example_now :: "nat \<Rightarrow> string" where
  "example_now i = ''2026-01-01 12:00:00''"

section \<open>Reading the columns of a result\<close>

text \<open>
  What a caller reads from a row to compare it with the next: \<open>column r c\<close> is \<^verbatim>\<open>r[c]\<close>
  for a column the row has, and \<open>text_of\<close>, \<open>int_of\<close> and \<open>real_of\<close> take the string,
  the integer or the real (\<open>None\<close> for \<^verbatim>\<open>NULL\<close>, which sorts below every number) out of the
  value.
\<close>

definition column :: "sql_value row \<Rightarrow> string \<Rightarrow> sql_value" where
  "column r c = (case map_of r c of None \<Rightarrow> Null | Some v \<Rightarrow> v)"

definition text_of :: "sql_value \<Rightarrow> string" where
  "text_of v = (case v of Text s \<Rightarrow> s | _ \<Rightarrow> [])"

definition int_of :: "sql_value \<Rightarrow> int" where
  "int_of v = (case v of Integer i \<Rightarrow> i | _ \<Rightarrow> 0)"

definition real_of :: "sql_value \<Rightarrow> rat option" where
  "real_of v = (case v of Real x \<Rightarrow> Some x | _ \<Rightarrow> None)"

text \<open>
  A gradebook in which one student has three grades, entered in the order of the
  assignments: what \<^verbatim>\<open>create_schema\<close>, \<^verbatim>\<open>add_student\<close>, three \<^verbatim>\<open>add_assignment\<close> and
  three \<^verbatim>\<open>record_grade\<close> of \<^verbatim>\<open>homework.py\<close> build.
\<close>

definition report_seed :: "conn \<Rightarrow> conn \<times> (error + unit)" where
  "report_seed c0 =
     and_then (homework_create_schema c0) (\<lambda>c _.
     and_then (add_student c ''Ava'' ''ava@example.com'') (\<lambda>c s.
     and_then (add_assignment c ''Essay'' 10) (\<lambda>c a1.
     and_then (add_assignment c ''Debate'' 100) (\<lambda>c a2.
     and_then (add_assignment c ''Final'' 50) (\<lambda>c a3.
     and_then (record_grade c s a1 5) (\<lambda>c _.
     and_then (record_grade c s a2 100) (\<lambda>c _.
     and_then (record_grade c s a3 10) (\<lambda>c _.
     (commit c, Inr ())))))))))"

definition report_db :: database where
  "report_db = \<lparr>students = Some [\<lparr>s_id = 1, s_name = ''Ava'', s_email = ''ava@example.com''\<rparr>],
     courses = None, enrollments = None,
     assignments =
       Some [\<lparr>a_id = 1, a_title = ''Essay'', a_max_points = 10\<rparr>,
             \<lparr>a_id = 2, a_title = ''Debate'', a_max_points = 100\<rparr>,
             \<lparr>a_id = 3, a_title = ''Final'', a_max_points = 50\<rparr>],
     grades =
       Some [\<lparr>g_id = 1, g_student_id = 1, g_assignment_id = 1, g_score = 5, g_created_at = None\<rparr>,
             \<lparr>g_id = 2, g_student_id = 1, g_assignment_id = 2, g_score = 100, g_created_at = None\<rparr>,
             \<lparr>g_id = 3, g_student_id = 1, g_assignment_id = 3, g_score = 10, g_created_at = None\<rparr>],
     seq_students = 1, seq_courses = 0, seq_enrollments = 0, seq_assignments = 3,
     seq_grades = 3, grade_indexes = []\<rparr>"

section \<open>The leaderboard as the specification words it\<close>





section \<open>Properties of the formatter\<close>

text \<open>
  Claim C9.  For the empty row sequence the formatter returns normally and prints, after
  the rule of equals signs, the title and the rule of dashes, the fixed placeholder
  \<^verbatim>\<open>(no rows)\<close> and nothing else: no header line, no separator, no body.
\<close>

theorem print_rows_empty:
  "print_rows str title [] =
     Inr [CHR 10 # replicate 80 (CHR ''=''), title, replicate 80 (CHR ''-''), ''(no rows)'']"
  by (simp add: print_rows_def banner_def)














section \<open>The data the programs build\<close>

lemmas script_defs = executescript_def and_then_def execute_dml_def implicit_begin_def
  commit_def connect_def reset_db_def next_rowid_def Let_def

lemma exercises_main_setup_value:
  "exercises_main_setup (connect reset_db) = (\<lparr>db = exercises_db, snapshot = None\<rparr>, Inr (1, 2))"
  by (simp add: exercises_main_setup_def exercises_create_schema_def seed_courses_def
      add_student_def insert_student_def insert_course_def exercises_db_def script_defs)

lemma homework_main_seed_value:
  "homework_main_seed (connect reset_db) = (\<lparr>db = homework_db, snapshot = None\<rparr>, Inr ())"
  by (simp add: homework_main_seed_def homework_create_schema_def add_student_def
      add_assignment_def record_grade_def insert_student_def insert_assignment_def
      insert_grade_def homework_db_def script_defs)

lemma demo_main_seed_value:
  "demo_main_seed (connect reset_db) now = (\<lparr>db = demo_db now, snapshot = None\<rparr>, Inr ())"
  by (simp add: demo_main_seed_def demo_create_schema_def seed_data_def create_index_def
      dict_get_def insert_student_def insert_assignment_def insert_grade_def enumerate_eq_zip
      upt_rec demo_db_def homework_db_def script_defs eval_nat_numeral)

section \<open>Properties of the create, read, update and delete helpers\<close>

lemma filter_key_absent: "k \<notin> set (map f xs) \<Longrightarrow> filter (\<lambda>y. f y = k) xs = []"
  by (induction xs) auto

lemma filter_key_unique:
  "distinct (map f xs) \<Longrightarrow> x \<in> set xs \<Longrightarrow> filter (\<lambda>y. f y = f x) xs = [x]"
proof (induction xs)
  case Nil
  then show ?case by simp
next
  case (Cons y ys)
  show ?case
  proof (cases "y = x")
    case True
    with Cons.prems(1) have "f x \<notin> set (map f ys)" by simp
    then have "filter (\<lambda>y. f y = f x) ys = []" by (rule filter_key_absent)
    with True show ?thesis by simp
  next
    case False
    with Cons.prems have "x \<in> set ys" and "f y \<noteq> f x" by auto
    with Cons show ?thesis by simp
  qed
qed

lemma filter_other_unchanged:
  "k \<notin> set (map f xs) \<Longrightarrow> filter (\<lambda>y. f y \<noteq> k) xs = xs"
  by (induction xs) auto

lemma map_rename_absent:
  "k \<notin> set (map s_id ss) \<Longrightarrow> map (\<lambda>s. if s_id s = k then s\<lparr>s_name := n\<rparr> else s) ss = ss"
  by (induction ss) auto

lemma filter_email_rename:
  "filter (\<lambda>t. s_email t = e) (map (\<lambda>s. if s_id s = k then s\<lparr>s_name := n\<rparr> else s) ss)
     = map (\<lambda>s. if s_id s = k then s\<lparr>s_name := n\<rparr> else s) (filter (\<lambda>t. s_email t = e) ss)"
  by (induction ss) auto

text \<open>
  Claim C6.  On a connection whose \<^verbatim>\<open>students\<close> table exists, for every name and every
  email no student has yet (a valid pair: \<^verbatim>\<open>email\<close> is \<^verbatim>\<open>UNIQUE\<close>), \<^verbatim>\<open>add_student\<close>
  returns an id and a following \<^verbatim>\<open>find_student_by_email\<close> with that email, before or
  after \<^verbatim>\<open>commit\<close>, returns the row with that id, that name and that email.  Looking up an
  email no student has returns \<^verbatim>\<open>None\<close>, not an exception.
\<close>

theorem add_student_find_student_by_email:
  assumes "students (db c) = Some ss"
  shows "(email \<notin> set (map s_email ss) \<longrightarrow>
           (\<exists>c' sid. add_student c name email = (c', Inr sid)
              \<and> find_student_by_email c' email
                  = Inr (Some [(''id'', Integer sid), (''name'', Text name), (''email'', Text email)])
              \<and> find_student_by_email (commit c') email
                  = Inr (Some [(''id'', Integer sid), (''name'', Text name), (''email'', Text email)])))
       \<and> (missing \<notin> set (map s_email ss) \<longrightarrow> find_student_by_email c missing = Inr None)"
proof (intro conjI impI)
  assume new: "email \<notin> set (map s_email ss)"
  then have "filter (\<lambda>s. s_email s = email) ss = []"
    by (rule filter_key_absent)
  with assms new show "\<exists>c' sid. add_student c name email = (c', Inr sid)
      \<and> find_student_by_email c' email
          = Inr (Some [(''id'', Integer sid), (''name'', Text name), (''email'', Text email)])
      \<and> find_student_by_email (commit c') email
          = Inr (Some [(''id'', Integer sid), (''name'', Text name), (''email'', Text email)])"
    by (simp add: add_student_def execute_dml_def insert_student_def Let_def
        find_student_by_email_def student_row_def commit_def)
next
  assume "missing \<notin> set (map s_email ss)"
  then have "filter (\<lambda>s. s_email s = missing) ss = []"
    by (rule filter_key_absent)
  with assms show "find_student_by_email c missing = Inr None"
    by (simp add: find_student_by_email_def)
qed

text \<open>
  Claim C7.  On a \<^verbatim>\<open>students\<close> table that satisfies its declared constraints (distinct
  ids, distinct emails), \<^verbatim>\<open>rename_student\<close> returns normally with the number of rows it
  changed: 0 when no student has the id, and then the database is as before; 1 when a
  student has it, and then looking that student up by email returns the row with the new
  name.
\<close>

theorem rename_student_rowcount:
  assumes "students (db c) = Some ss"
    and "distinct (map s_id ss)" and "distinct (map s_email ss)"
  shows "(student_id \<notin> set (map s_id ss) \<longrightarrow>
           (\<exists>c'. rename_student c student_id new_name = (c', Inr 0) \<and> db c' = db c))
       \<and> (\<forall>s\<in>set ss. s_id s = student_id \<longrightarrow>
           (\<exists>c'. rename_student c student_id new_name = (c', Inr 1)
              \<and> find_student_by_email c' (s_email s)
                  = Inr (Some [(''id'', Integer student_id), (''name'', Text new_name),
                               (''email'', Text (s_email s))])))"
proof (intro conjI impI ballI)
  assume absent: "student_id \<notin> set (map s_id ss)"
  then have "filter (\<lambda>s. s_id s = student_id) ss = []"
    by (rule filter_key_absent)
  moreover from absent
  have "map (\<lambda>s. if s_id s = student_id then s\<lparr>s_name := new_name\<rparr> else s) ss = ss"
    by (rule map_rename_absent)
  moreover from assms(1) have "(db c)\<lparr>students := Some ss\<rparr> = db c"
    by simp
  ultimately show "\<exists>c'. rename_student c student_id new_name = (c', Inr 0) \<and> db c' = db c"
    using assms(1) by (simp add: rename_student_def execute_dml_def update_student_name_def)
next
  fix s
  assume s: "s \<in> set ss" and sid: "s_id s = student_id"
  from assms(2) s have "filter (\<lambda>y. s_id y = s_id s) ss = [s]"
    by (rule filter_key_unique)
  then have one: "filter (\<lambda>y. s_id y = student_id) ss = [s]"
    using sid by simp
  from assms(3) s have "filter (\<lambda>y. s_email y = s_email s) ss = [s]"
    by (rule filter_key_unique)
  then have "filter (\<lambda>t. s_email t = s_email s)
      (map (\<lambda>s. if s_id s = student_id then s\<lparr>s_name := new_name\<rparr> else s) ss)
    = [s\<lparr>s_name := new_name\<rparr>]"
    using sid by (simp add: filter_email_rename)
  with one assms(1) sid
  show "\<exists>c'. rename_student c student_id new_name = (c', Inr 1)
      \<and> find_student_by_email c' (s_email s)
          = Inr (Some [(''id'', Integer student_id), (''name'', Text new_name),
                       (''email'', Text (s_email s))])"
    by (simp add: rename_student_def execute_dml_def update_student_name_def
        find_student_by_email_def student_row_def)
qed

text \<open>
  A \<^verbatim>\<open>DELETE\<close> on \<^verbatim>\<open>students\<close> whose cascades cannot be prepared, because a table that
  references \<^verbatim>\<open>students\<close> names another parent that does not exist, raises
  \<^verbatim>\<open>OperationalError\<close> and changes nothing, whether or not a student has the id.
\<close>

lemma delete_student_unprepared:
  assumes "students (db c) = Some ss" and "\<not> cascade_prepared Students (db c)"
  shows "delete_student c student_id = (c, Inl OperationalError)"
  using assms by (simp add: delete_student_def execute_dml_def delete_student_row_def)

text \<open>
  Claim C8.  On a \<^verbatim>\<open>students\<close> table with distinct ids, in a database where every table
  that references \<^verbatim>\<open>students\<close> has its other parent too (\<^verbatim>\<open>courses\<close> for \<^verbatim>\<open>enrollments\<close>,
  \<^verbatim>\<open>assignments\<close> for \<^verbatim>\<open>grades\<close>), \<^verbatim>\<open>delete_student\<close> returns the number of students it
  removed.  When a student has the id that is 1: the table keeps every other student, in
  order, and loses that one; every enrollment and every grade of that student is removed
  and every other one kept; courses and assignments are untouched.  When no student has
  the id it is 0 and the database is as before.
\<close>

theorem delete_student_cascade:
  assumes "students (db c) = Some ss" and "distinct (map s_id ss)"
    and "cascade_prepared Students (db c)"
  shows "(student_id \<in> set (map s_id ss) \<longrightarrow>
           (\<exists>c'. delete_student c student_id = (c', Inr 1)
              \<and> students (db c') = Some (filter (\<lambda>s. s_id s \<noteq> student_id) ss)
              \<and> length (filter (\<lambda>s. s_id s \<noteq> student_id) ss) + 1 = length ss
              \<and> enrollments (db c')
                  = map_option (filter (\<lambda>e. e_student_id e \<noteq> student_id)) (enrollments (db c))
              \<and> grades (db c')
                  = map_option (filter (\<lambda>g. g_student_id g \<noteq> student_id)) (grades (db c))
              \<and> courses (db c') = courses (db c)
              \<and> assignments (db c') = assignments (db c)))
       \<and> (student_id \<notin> set (map s_id ss) \<longrightarrow>
           (\<exists>c'. delete_student c student_id = (c', Inr 0) \<and> db c' = db c))"
proof (intro conjI impI)
  assume "student_id \<in> set (map s_id ss)"
  then obtain s where s: "s \<in> set ss" and sid: "s_id s = student_id"
    by auto
  from assms(2) s have "filter (\<lambda>y. s_id y = s_id s) ss = [s]"
    by (rule filter_key_unique)
  then have one: "filter (\<lambda>y. s_id y = student_id) ss = [s]"
    using sid by simp
  have "length (filter (\<lambda>y. s_id y = student_id) ss)
      + length (filter (\<lambda>y. \<not> s_id y = student_id) ss) = length ss"
    by (rule sum_length_filter_compl)
  with one have len: "length (filter (\<lambda>s. s_id s \<noteq> student_id) ss) + 1 = length ss"
    by simp
  from one assms(1) assms(3) len
  show "\<exists>c'. delete_student c student_id = (c', Inr 1)
      \<and> students (db c') = Some (filter (\<lambda>s. s_id s \<noteq> student_id) ss)
      \<and> length (filter (\<lambda>s. s_id s \<noteq> student_id) ss) + 1 = length ss
      \<and> enrollments (db c')
          = map_option (filter (\<lambda>e. e_student_id e \<noteq> student_id)) (enrollments (db c))
      \<and> grades (db c')
          = map_option (filter (\<lambda>g. g_student_id g \<noteq> student_id)) (grades (db c))
      \<and> courses (db c') = courses (db c)
      \<and> assignments (db c') = assignments (db c)"
    by (simp add: delete_student_def execute_dml_def delete_student_row_def Let_def)
next
  assume "student_id \<notin> set (map s_id ss)"
  then have "filter (\<lambda>s. s_id s = student_id) ss = []"
    by (rule filter_key_absent)
  with assms(1) assms(3) show "\<exists>c'. delete_student c student_id = (c', Inr 0) \<and> db c' = db c"
    by (simp add: delete_student_def execute_dml_def delete_student_row_def Let_def)
qed

text \<open>
  Claim C10.  \<^verbatim>\<open>rename_student\<close> changes nothing but names in \<^verbatim>\<open>students\<close>: every other
  table, counter and index of the database is as before; the \<^verbatim>\<open>students\<close> table has the
  same rows in the same order with the same ids and emails, and a row whose id is not the
  given one is unchanged altogether.
\<close>

theorem rename_student_frame:
  "(db (fst (rename_student c student_id new_name)))\<lparr>students := None\<rparr>
      = (db c)\<lparr>students := None\<rparr>
   \<and> (students (db c) = None \<longrightarrow> students (db (fst (rename_student c student_id new_name))) = None)
   \<and> (\<forall>ss. students (db c) = Some ss \<longrightarrow>
        (\<exists>ss'. students (db (fst (rename_student c student_id new_name))) = Some ss'
           \<and> map s_id ss' = map s_id ss \<and> map s_email ss' = map s_email ss
           \<and> (\<forall>i < length ss. s_id (ss ! i) \<noteq> student_id \<longrightarrow> ss' ! i = ss ! i)))"
proof (intro conjI impI allI)
  show "(db (fst (rename_student c student_id new_name)))\<lparr>students := None\<rparr>
      = (db c)\<lparr>students := None\<rparr>"
    by (simp add: rename_student_def execute_dml_def update_student_name_def implicit_begin_def
        split: option.splits)
next
  assume "students (db c) = None"
  then show "students (db (fst (rename_student c student_id new_name))) = None"
    by (simp add: rename_student_def execute_dml_def update_student_name_def)
next
  fix ss
  assume ss: "students (db c) = Some ss"
  let ?ss' = "map (\<lambda>s. if s_id s = student_id then s\<lparr>s_name := new_name\<rparr> else s) ss"
  have "students (db (fst (rename_student c student_id new_name))) = Some ?ss'"
    using ss by (simp add: rename_student_def execute_dml_def update_student_name_def)
  moreover have "map s_id ?ss' = map s_id ss" and "map s_email ?ss' = map s_email ss"
    by (induction ss) auto
  moreover have "\<forall>i < length ss. s_id (ss ! i) \<noteq> student_id \<longrightarrow> ?ss' ! i = ss ! i"
    by simp
  ultimately show "\<exists>ss'. students (db (fst (rename_student c student_id new_name))) = Some ss'
      \<and> map s_id ss' = map s_id ss \<and> map s_email ss' = map s_email ss
      \<and> (\<forall>i < length ss. s_id (ss ! i) \<noteq> student_id \<longrightarrow> ss' ! i = ss ! i)"
    by blast
qed

text \<open>The four theorems above at the database \<^verbatim>\<open>main\<close> of \<^verbatim>\<open>exercises.py\<close> builds.\<close>

theorem add_student_find_student_by_email_witness:
  "(\<exists>c'. add_student \<lparr>db = exercises_db, snapshot = None\<rparr> ''Maya'' ''maya@example.com''
          = (c', Inr 3)
      \<and> find_student_by_email c' ''maya@example.com''
          = Inr (Some [(''id'', Integer 3), (''name'', Text ''Maya''),
                       (''email'', Text ''maya@example.com'')]))
   \<and> find_student_by_email \<lparr>db = exercises_db, snapshot = None\<rparr> ''missing@example.com''
       = Inr None"
  using add_student_find_student_by_email [of "\<lparr>db = exercises_db, snapshot = None\<rparr>"
      "[\<lparr>s_id = 1, s_name = ''Ava'', s_email = ''ava@example.com''\<rparr>,
        \<lparr>s_id = 2, s_name = ''Noah'', s_email = ''noah@example.com''\<rparr>]"
      "''maya@example.com''" "''Maya''" "''missing@example.com''"]
  by (auto simp add: exercises_db_def add_student_def execute_dml_def insert_student_def
      next_rowid_def Let_def)

theorem rename_student_rowcount_witness:
  "snd (rename_student \<lparr>db = exercises_db, snapshot = None\<rparr> 7 ''Nobody'') = Inr 0
   \<and> snd (rename_student \<lparr>db = exercises_db, snapshot = None\<rparr> 2 ''Noah Kim'') = Inr 1
   \<and> find_student_by_email
        (fst (rename_student \<lparr>db = exercises_db, snapshot = None\<rparr> 2 ''Noah Kim''))
        ''noah@example.com''
       = Inr (Some [(''id'', Integer 2), (''name'', Text ''Noah Kim''),
                    (''email'', Text ''noah@example.com'')])"
  using rename_student_rowcount [of "\<lparr>db = exercises_db, snapshot = None\<rparr>"
      "[\<lparr>s_id = 1, s_name = ''Ava'', s_email = ''ava@example.com''\<rparr>,
        \<lparr>s_id = 2, s_name = ''Noah'', s_email = ''noah@example.com''\<rparr>]" 7 "''Nobody''"]
    rename_student_rowcount [of "\<lparr>db = exercises_db, snapshot = None\<rparr>"
      "[\<lparr>s_id = 1, s_name = ''Ava'', s_email = ''ava@example.com''\<rparr>,
        \<lparr>s_id = 2, s_name = ''Noah'', s_email = ''noah@example.com''\<rparr>]" 2 "''Noah Kim''"]
  by (auto simp add: exercises_db_def)

theorem delete_student_cascade_witness:
  "snd (delete_student \<lparr>db = enrolled_db, snapshot = None\<rparr> 1) = Inr 1
   \<and> students (db (fst (delete_student \<lparr>db = enrolled_db, snapshot = None\<rparr> 1)))
       = Some [\<lparr>s_id = 2, s_name = ''Noah'', s_email = ''noah@example.com''\<rparr>]
   \<and> enrollments (db (fst (delete_student \<lparr>db = enrolled_db, snapshot = None\<rparr> 1)))
       = Some [\<lparr>e_id = 2, e_student_id = 2, e_course_id = 1,
                e_enrolled_at = ''2026-01-01 12:00:01''\<rparr>]
   \<and> courses (db (fst (delete_student \<lparr>db = enrolled_db, snapshot = None\<rparr> 1)))
       = courses enrolled_db
   \<and> snd (delete_student \<lparr>db = enrolled_db, snapshot = None\<rparr> 7) = Inr 0
   \<and> db (fst (delete_student \<lparr>db = enrolled_db, snapshot = None\<rparr> 7)) = enrolled_db
   \<and> snd (delete_student \<lparr>db = homework_db, snapshot = None\<rparr> 3) = Inr 1
   \<and> students (db (fst (delete_student \<lparr>db = homework_db, snapshot = None\<rparr> 3)))
       = Some [\<lparr>s_id = 1, s_name = ''Ava'', s_email = ''ava@example.com''\<rparr>,
               \<lparr>s_id = 2, s_name = ''Noah'', s_email = ''noah@example.com''\<rparr>]
   \<and> grades (db (fst (delete_student \<lparr>db = homework_db, snapshot = None\<rparr> 3)))
       = Some [\<lparr>g_id = 1, g_student_id = 1, g_assignment_id = 1, g_score = 9, g_created_at = None\<rparr>,
               \<lparr>g_id = 2, g_student_id = 1, g_assignment_id = 2, g_score = 95, g_created_at = None\<rparr>,
               \<lparr>g_id = 3, g_student_id = 2, g_assignment_id = 1, g_score = 7, g_created_at = None\<rparr>,
               \<lparr>g_id = 4, g_student_id = 2, g_assignment_id = 2, g_score = 88, g_created_at = None\<rparr>]
   \<and> assignments (db (fst (delete_student \<lparr>db = homework_db, snapshot = None\<rparr> 3)))
       = assignments homework_db"
  using delete_student_cascade [of "\<lparr>db = enrolled_db, snapshot = None\<rparr>"
      "[\<lparr>s_id = 1, s_name = ''Ava'', s_email = ''ava@example.com''\<rparr>,
        \<lparr>s_id = 2, s_name = ''Noah'', s_email = ''noah@example.com''\<rparr>]" 1]
    delete_student_cascade [of "\<lparr>db = enrolled_db, snapshot = None\<rparr>"
      "[\<lparr>s_id = 1, s_name = ''Ava'', s_email = ''ava@example.com''\<rparr>,
        \<lparr>s_id = 2, s_name = ''Noah'', s_email = ''noah@example.com''\<rparr>]" 7]
    delete_student_cascade [of "\<lparr>db = homework_db, snapshot = None\<rparr>"
      "[\<lparr>s_id = 1, s_name = ''Ava'', s_email = ''ava@example.com''\<rparr>,
        \<lparr>s_id = 2, s_name = ''Noah'', s_email = ''noah@example.com''\<rparr>,
        \<lparr>s_id = 3, s_name = ''Maya'', s_email = ''maya@example.com''\<rparr>]" 3]
  by (auto simp add: enrolled_db_def exercises_db_def homework_db_def)

theorem rename_student_frame_witness:
  "students (db (fst (rename_student \<lparr>db = exercises_db, snapshot = None\<rparr> 2 ''Noah Kim'')))
     = Some [\<lparr>s_id = 1, s_name = ''Ava'', s_email = ''ava@example.com''\<rparr>,
             \<lparr>s_id = 2, s_name = ''Noah Kim'', s_email = ''noah@example.com''\<rparr>]
   \<and> courses (db (fst (rename_student \<lparr>db = exercises_db, snapshot = None\<rparr> 2 ''Noah Kim'')))
       = courses exercises_db
   \<and> enrollments (db (fst (rename_student \<lparr>db = exercises_db, snapshot = None\<rparr> 2 ''Noah Kim'')))
       = enrollments exercises_db"
  using rename_student_frame [of "\<lparr>db = exercises_db, snapshot = None\<rparr>" 2 "''Noah Kim''"]
  by (auto simp add: exercises_db_def rename_student_def execute_dml_def update_student_name_def)

section \<open>The declared constraints are kept\<close>

text \<open>
  The theorems above and below assume of a table what its \<^verbatim>\<open>CREATE TABLE\<close> declares: a
  primary key and a \<^verbatim>\<open>UNIQUE\<close> column hold distinct values, \<^verbatim>\<open>max_points\<close> is positive.
  An empty table satisfies this, and the statements of the programs keep it.
\<close>

lemma fold_max_start: "(s :: int) \<le> fold max xs s"
  by (induction xs arbitrary: s) (auto intro: order_trans [OF max.cobounded2])

lemma fold_max_ge: "x \<in> set xs \<Longrightarrow> x \<le> fold max xs (s :: int)"
proof (induction xs arbitrary: s)
  case Nil
  then show ?case by simp
next
  case (Cons y ys)
  show ?case
  proof (cases "x = y")
    case True
    have "y \<le> max y s" by simp
    also have "\<dots> \<le> fold max ys (max y s)" by (rule fold_max_start)
    finally show ?thesis using True by simp
  next
    case False
    with Cons.prems have "x \<in> set ys" by simp
    then show ?thesis by (simp add: Cons.IH)
  qed
qed

lemma next_rowid_fresh: "next_rowid sq ids \<notin> set ids"
proof
  assume "next_rowid sq ids \<in> set ids"
  then have "next_rowid sq ids \<le> fold max ids sq" by (rule fold_max_ge)
  then show False by (simp add: next_rowid_def)
qed

lemma add_student_keeps_keys:
  assumes "students (db c) = Some ss"
    and "distinct (map s_id ss)" and "distinct (map s_email ss)"
  shows "\<exists>ss'. students (db (fst (add_student c name email))) = Some ss'
    \<and> distinct (map s_id ss') \<and> distinct (map s_email ss')"
proof (cases "email \<in> set (map s_email ss)")
  case True
  with assms show ?thesis
    by (simp add: add_student_def execute_dml_def insert_student_def implicit_begin_def
        split: option.splits)
next
  case False
  have "next_rowid (seq_students (db c)) (map s_id ss) \<notin> set (map s_id ss)"
    by (rule next_rowid_fresh)
  with False assms show ?thesis
    by (simp add: add_student_def execute_dml_def insert_student_def Let_def)
qed

lemma rename_student_keeps_keys:
  assumes "students (db c) = Some ss"
    and "distinct (map s_id ss)" and "distinct (map s_email ss)"
  shows "\<exists>ss'. students (db (fst (rename_student c student_id new_name))) = Some ss'
    \<and> distinct (map s_id ss') \<and> distinct (map s_email ss')"
proof -
  let ?ss' = "map (\<lambda>s. if s_id s = student_id then s\<lparr>s_name := new_name\<rparr> else s) ss"
  have ids: "map s_id ?ss' = map s_id ss"
    by (induction ss) auto
  have emails: "map s_email ?ss' = map s_email ss"
    by (induction ss) auto
  have "students (db (fst (rename_student c student_id new_name))) = Some ?ss'"
    using assms(1) by (simp add: rename_student_def execute_dml_def update_student_name_def)
  moreover have "distinct (map s_id ?ss')"
    unfolding ids by (rule assms(2))
  moreover have "distinct (map s_email ?ss')"
    unfolding emails by (rule assms(3))
  ultimately show ?thesis by blast
qed

lemma delete_student_keeps_keys:
  assumes "students (db c) = Some ss"
    and "distinct (map s_id ss)" and "distinct (map s_email ss)"
  shows "\<exists>ss'. students (db (fst (delete_student c student_id))) = Some ss'
    \<and> distinct (map s_id ss') \<and> distinct (map s_email ss')"
  using assms
  by (auto simp: delete_student_def execute_dml_def delete_student_row_def Let_def
      distinct_map_filter)

lemma add_assignment_keeps_check:
  assumes "assignments (db c) = Some as"
    and "distinct (map a_id as)" and "\<forall>a\<in>set as. a_max_points a > 0"
  shows "\<exists>as'. assignments (db (fst (add_assignment c title max_points))) = Some as'
    \<and> distinct (map a_id as') \<and> (\<forall>a\<in>set as'. a_max_points a > 0)"
proof (cases "max_points > 0")
  case False
  with assms show ?thesis
    by (simp add: add_assignment_def execute_dml_def insert_assignment_def implicit_begin_def
        split: option.splits)
next
  case True
  have "next_rowid (seq_assignments (db c)) (map a_id as) \<notin> set (map a_id as)"
    by (rule next_rowid_fresh)
  with True assms show ?thesis
    by (simp add: add_assignment_def execute_dml_def insert_assignment_def Let_def)
qed

section \<open>Transactions\<close>

lemma conn_idle: "snapshot c = None \<Longrightarrow> \<lparr>db = db c, snapshot = None\<rparr> = c"
  by (cases c) simp

lemmas transaction_defs = and_then_def execute_begin_def execute_commit_def
  execute_rollback_def execute_dml_def implicit_begin_def

text \<open>
  The block of \<^verbatim>\<open>main\<close> in \<^verbatim>\<open>exercises.py\<close>, on a connection with no transaction open
  and the three tables present: it ends normally and leaves the connection exactly as it
  was, whichever insert failed.
\<close>

lemma main_duplicate_enrollment_restores:
  assumes "snapshot c = None"
    and "enrollments (db c) = Some es" and "students (db c) = Some ss"
    and "courses (db c) = Some cs"
  shows "main_duplicate_enrollment c s1 course now1 now2 = (c, Inr ())"
proof (cases "(s1, course) \<in> set (map (\<lambda>e. (e_student_id e, e_course_id e)) es)
    \<or> s1 \<notin> set (map s_id ss) \<or> course \<notin> set (map c_id cs)")
  case True
  with assms show ?thesis
    by (simp add: main_duplicate_enrollment_def enroll_student_def insert_enrollment_def
        transaction_defs conn_idle)
next
  case False
  with assms show ?thesis
    by (simp add: main_duplicate_enrollment_def enroll_student_def insert_enrollment_def
        transaction_defs conn_idle Let_def)
qed

text \<open>When the first insert is valid it is the second that raises, with the first row in place.\<close>

lemma second_enrollment_raises:
  assumes "snapshot c = None"
    and "enrollments (db c) = Some es" and "students (db c) = Some ss"
    and "courses (db c) = Some cs"
    and "(s1, course) \<notin> set (map (\<lambda>e. (e_student_id e, e_course_id e)) es)"
    and "s1 \<in> set (map s_id ss)" and "course \<in> set (map c_id cs)"
  shows "\<exists>c1 c2 c3. execute_begin c = (c1, Inr ())
      \<and> enroll_student c1 s1 course now1 = (c2, Inr ())
      \<and> map_option length (enrollments (db c2)) = Some (length es + 1)
      \<and> enroll_student c2 s1 course now2 = (c3, Inl IntegrityError)
      \<and> execute_rollback c3 = (c, Inr ())"
  using assms
  by (simp add: enroll_student_def insert_enrollment_def transaction_defs conn_idle Let_def)

text \<open>\<^verbatim>\<open>demo_transaction_rollback\<close>, likewise, when there is a grade to duplicate.\<close>

lemma demo_transaction_rollback_restores:
  assumes "snapshot c = None"
    and "grades (db c) = Some (g # gs)" and "students (db c) = Some ss"
    and "assignments (db c) = Some as"
  shows "demo_transaction_rollback c now = (c, Inr ())"
  using assms
  by (simp add: demo_transaction_rollback_def insert_grade_def transaction_defs conn_idle)

text \<open>
  Claim C1.  On a connection with no transaction open, whose tables exist:
  \<^item> the block of \<^verbatim>\<open>exercises.py\<close> that enrolls the same (student, course) pair twice
    inside one transaction ends without an exception and leaves the connection, hence the
    whole database, as it was before \<^verbatim>\<open>BEGIN\<close>: \<^verbatim>\<open>list_enrollments\<close> returns what it
    returned before, and zero rows when the table was empty, as it is in \<^verbatim>\<open>main\<close>;
  \<^item> when the pair is valid and new, the first insert succeeds (one more row is visible
    inside the transaction), the second raises \<open>IntegrityError\<close>, and the rollback gives
    back the connection as it was;
  \<^item> \<^verbatim>\<open>demo_transaction_rollback\<close>, which inserts again the pair of an existing grade,
    leaves the connection as it was, and the count of grades is unchanged.
\<close>

theorem rollback_leaves_no_partial_effects:
  assumes "snapshot c = None"
  shows "(enrollments (db c) = Some es \<and> students (db c) = Some ss \<and> courses (db c) = Some cs \<longrightarrow>
           main_duplicate_enrollment c s1 course now1 now2 = (c, Inr ())
           \<and> list_enrollments (fst (main_duplicate_enrollment c s1 course now1 now2))
               = list_enrollments c
           \<and> (es = [] \<longrightarrow>
                list_enrollments (fst (main_duplicate_enrollment c s1 course now1 now2)) = Inr [])
           \<and> ((s1, course) \<notin> set (map (\<lambda>e. (e_student_id e, e_course_id e)) es)
                \<and> s1 \<in> set (map s_id ss) \<and> course \<in> set (map c_id cs) \<longrightarrow>
                (\<exists>c1 c2 c3. execute_begin c = (c1, Inr ())
                   \<and> enroll_student c1 s1 course now1 = (c2, Inr ())
                   \<and> map_option length (enrollments (db c2)) = Some (length es + 1)
                   \<and> enroll_student c2 s1 course now2 = (c3, Inl IntegrityError)
                   \<and> execute_rollback c3 = (c, Inr ()))))
       \<and> (grades (db c) = Some (g # gs) \<and> students (db c) = Some ss
            \<and> assignments (db c) = Some as \<longrightarrow>
           demo_transaction_rollback c now = (c, Inr ())
           \<and> count_grades (fst (demo_transaction_rollback c now)) = count_grades c)"
proof (intro conjI impI)
  assume t: "enrollments (db c) = Some es \<and> students (db c) = Some ss \<and> courses (db c) = Some cs"
  with assms show r: "main_duplicate_enrollment c s1 course now1 now2 = (c, Inr ())"
    by (intro main_duplicate_enrollment_restores) simp_all
  then show "list_enrollments (fst (main_duplicate_enrollment c s1 course now1 now2))
      = list_enrollments c"
    by simp
  {
    assume "es = []"
    with t r show "list_enrollments (fst (main_duplicate_enrollment c s1 course now1 now2)) = Inr []"
      by (simp add: list_enrollments_def)
  }
  {
    assume "(s1, course) \<notin> set (map (\<lambda>e. (e_student_id e, e_course_id e)) es)
        \<and> s1 \<in> set (map s_id ss) \<and> course \<in> set (map c_id cs)"
    with assms t show "\<exists>c1 c2 c3. execute_begin c = (c1, Inr ())
        \<and> enroll_student c1 s1 course now1 = (c2, Inr ())
        \<and> map_option length (enrollments (db c2)) = Some (length es + 1)
        \<and> enroll_student c2 s1 course now2 = (c3, Inl IntegrityError)
        \<and> execute_rollback c3 = (c, Inr ())"
      using second_enrollment_raises [of c es ss cs s1 course now1 now2] by blast
  }
next
  assume t: "grades (db c) = Some (g # gs) \<and> students (db c) = Some ss
      \<and> assignments (db c) = Some as"
  with assms show r: "demo_transaction_rollback c now = (c, Inr ())"
    by (intro demo_transaction_rollback_restores) simp_all
  then show "count_grades (fst (demo_transaction_rollback c now)) = count_grades c"
    by simp
qed

text \<open>
  The theorem at \<^verbatim>\<open>main\<close> of \<^verbatim>\<open>exercises.py\<close> (Ava is student 1, CS205 is course 2),
  where the listing after the rollback is empty, and at \<^verbatim>\<open>main\<close> of \<^verbatim>\<open>demo.py\<close>, where
  the seven grades are still seven.
\<close>

theorem rollback_leaves_no_partial_effects_witness:
  "main_duplicate_enrollment \<lparr>db = exercises_db, snapshot = None\<rparr> 1 2 ''t1'' ''t2''
     = (\<lparr>db = exercises_db, snapshot = None\<rparr>, Inr ())
   \<and> list_enrollments
       (fst (main_duplicate_enrollment \<lparr>db = exercises_db, snapshot = None\<rparr> 1 2 ''t1'' ''t2''))
     = Inr []
   \<and> demo_transaction_rollback \<lparr>db = demo_db example_now, snapshot = None\<rparr> ''t''
     = (\<lparr>db = demo_db example_now, snapshot = None\<rparr>, Inr ())
   \<and> count_grades
       (fst (demo_transaction_rollback \<lparr>db = demo_db example_now, snapshot = None\<rparr> ''t''))
     = Inr 7"
proof -
  have idle: "snapshot \<lparr>db = exercises_db, snapshot = None\<rparr> = None"
    by simp
  have idle': "snapshot \<lparr>db = demo_db example_now, snapshot = None\<rparr> = None"
    by simp
  have "main_duplicate_enrollment \<lparr>db = exercises_db, snapshot = None\<rparr> 1 2 ''t1'' ''t2''
       = (\<lparr>db = exercises_db, snapshot = None\<rparr>, Inr ())
     \<and> list_enrollments
         (fst (main_duplicate_enrollment \<lparr>db = exercises_db, snapshot = None\<rparr> 1 2 ''t1'' ''t2''))
       = Inr []"
    using rollback_leaves_no_partial_effects [OF idle, where es = "[]"
        and ss = "[\<lparr>s_id = 1, s_name = ''Ava'', s_email = ''ava@example.com''\<rparr>,
          \<lparr>s_id = 2, s_name = ''Noah'', s_email = ''noah@example.com''\<rparr>]"
        and cs = "[\<lparr>c_id = 1, c_code = ''CS101'', c_title = ''Intro to Programming''\<rparr>,
          \<lparr>c_id = 2, c_code = ''CS205'', c_title = ''Web Development''\<rparr>,
          \<lparr>c_id = 3, c_code = ''CS310'', c_title = ''Data Structures''\<rparr>]"
        and ?s1.0 = 1 and course = 2 and ?now1.0 = "''t1''" and ?now2.0 = "''t2''"]
    by (simp add: exercises_db_def list_enrollments_def)
  moreover
  have "demo_transaction_rollback \<lparr>db = demo_db example_now, snapshot = None\<rparr> ''t''
       = (\<lparr>db = demo_db example_now, snapshot = None\<rparr>, Inr ())
     \<and> count_grades
         (fst (demo_transaction_rollback \<lparr>db = demo_db example_now, snapshot = None\<rparr> ''t''))
       = Inr 7"
    using rollback_leaves_no_partial_effects [OF idle', where now = "''t''"
        and g = "hd (the (grades (demo_db example_now)))"
        and gs = "tl (the (grades (demo_db example_now)))"
        and ss = "the (students (demo_db example_now))"
        and as = "the (assignments (demo_db example_now))"]
    by (simp add: demo_db_def homework_db_def count_grades_def)
  ultimately show ?thesis
    by blast
qed

section \<open>Schema creation\<close>

lemmas schema_defs = executescript_def create_index_def

lemma map_option_filter_True: "map_option (filter (\<lambda>x. True)) m = m"
  by (cases m) simp_all

text \<open>
  \<^verbatim>\<open>create_schema\<close> of \<^verbatim>\<open>demo.py\<close> drops \<^verbatim>\<open>grades\<close>, \<^verbatim>\<open>assignments\<close> and \<^verbatim>\<open>students\<close>, in
  that order: children before parents.  From any state of the connection in which
  \<^verbatim>\<open>enrollments\<close>, if it exists, has its \<^verbatim>\<open>courses\<close>, it succeeds and leaves the three tables
  empty, their counters at zero, the two indexes and no open transaction.
\<close>

lemma demo_create_schema_result:
  assumes "enrollments (db c) = None \<or> courses (db c) \<noteq> None"
  shows "snd (demo_create_schema c) = Inr ()
   \<and> snapshot (fst (demo_create_schema c)) = None
   \<and> students (db (fst (demo_create_schema c))) = Some []
   \<and> assignments (db (fst (demo_create_schema c))) = Some []
   \<and> grades (db (fst (demo_create_schema c))) = Some []
   \<and> seq_students (db (fst (demo_create_schema c))) = 0
   \<and> seq_assignments (db (fst (demo_create_schema c))) = 0
   \<and> seq_grades (db (fst (demo_create_schema c))) = 0
   \<and> grade_indexes (db (fst (demo_create_schema c)))
       = [''idx_grades_student_id'', ''idx_grades_assignment_id'']"
  using assms by (auto simp add: demo_create_schema_def schema_defs split: option.splits)

lemma demo_create_schema_idem:
  assumes "enrollments (db c) = None \<or> courses (db c) \<noteq> None"
  shows "demo_create_schema (fst (demo_create_schema c)) = demo_create_schema c"
  using assms
  by (auto simp add: demo_create_schema_def schema_defs map_option_filter_True
      split: option.splits)

text \<open>
  \<^verbatim>\<open>create_schema\<close> of \<^verbatim>\<open>homework.py\<close> on a database without \<^verbatim>\<open>students\<close>, \<^verbatim>\<open>assignments\<close>
  and \<^verbatim>\<open>grades\<close>: it succeeds and adds the three empty tables.
\<close>

lemma homework_create_schema_fresh:
  assumes "students (db c) = None" and "assignments (db c) = None" and "grades (db c) = None"
  shows "snd (homework_create_schema c) = Inr ()
   \<and> snapshot (fst (homework_create_schema c)) = None
   \<and> db (fst (homework_create_schema c))
       = (db c)\<lparr>students := Some [], assignments := Some [], grades := Some [],
           seq_students := 0, seq_assignments := 0, seq_grades := 0, grade_indexes := []\<rparr>"
  using assms by (simp add: homework_create_schema_def schema_defs)

text \<open>
  \<^verbatim>\<open>create_schema\<close> of \<^verbatim>\<open>homework.py\<close> drops \<^verbatim>\<open>students\<close>, \<^verbatim>\<open>assignments\<close> and \<^verbatim>\<open>grades\<close>, in
  that order: parents before the child.  Where the three tables exist, as after its own
  first run, \<^verbatim>\<open>students\<close> is dropped, and then the drop of \<^verbatim>\<open>assignments\<close> cannot prepare its
  cascade into \<^verbatim>\<open>grades\<close>, whose other parent is gone: the script stops with
  \<^verbatim>\<open>OperationalError\<close> and leaves the database without \<^verbatim>\<open>students\<close>.  Every later run
  stops at the same statement.
\<close>

lemma homework_create_schema_again:
  assumes "students (db c) \<noteq> None" and "assignments (db c) \<noteq> None" and "grades (db c) \<noteq> None"
    and "enrollments (db c) = None \<or> courses (db c) \<noteq> None"
  shows "snd (homework_create_schema c) = Inl OperationalError
   \<and> students (db (fst (homework_create_schema c))) = None
   \<and> assignments (db (fst (homework_create_schema c))) = assignments (db c)
   \<and> snd (homework_create_schema (fst (homework_create_schema c))) = Inl OperationalError"
  using assms by (auto simp add: homework_create_schema_def schema_defs split: option.splits)

lemma homework_create_schema_twice:
  "snd (homework_create_schema (connect reset_db)) = Inr ()
   \<and> snd (homework_create_schema (fst (homework_create_schema (connect reset_db))))
       = Inl OperationalError
   \<and> homework_create_schema \<lparr>db = homework_db, snapshot = None\<rparr>
       = (\<lparr>db = homework_db\<lparr>students := None, seq_students := 0, grades := Some []\<rparr>,
           snapshot = None\<rparr>, Inl OperationalError)"
  by (simp add: homework_create_schema_def schema_defs connect_def reset_db_def homework_db_def)

text \<open>
  \<^verbatim>\<open>create_schema\<close> of \<^verbatim>\<open>exercises.py\<close> has no \<^verbatim>\<open>DROP TABLE\<close>: it creates the tables
  where there are none and fails on the first \<^verbatim>\<open>CREATE TABLE\<close> where \<^verbatim>\<open>students\<close> exists.
\<close>

lemma exercises_create_schema_fresh:
  assumes "students (db c) = None" and "courses (db c) = None" and "enrollments (db c) = None"
  shows "snd (exercises_create_schema c) = Inr ()
   \<and> snapshot (fst (exercises_create_schema c)) = None
   \<and> db (fst (exercises_create_schema c))
       = (db c)\<lparr>students := Some [], courses := Some [], enrollments := Some [],
           seq_students := 0, seq_courses := 0, seq_enrollments := 0\<rparr>"
  using assms by (simp add: exercises_create_schema_def schema_defs)

lemma exercises_create_schema_again:
  assumes "students (db c) \<noteq> None"
  shows "snd (exercises_create_schema c) = Inl OperationalError
   \<and> db (fst (exercises_create_schema c)) = db c"
  using assms by (simp add: exercises_create_schema_def schema_defs)

text \<open>
  Claim C3, as amended.  \<^verbatim>\<open>create_schema\<close> of \<^verbatim>\<open>demo.py\<close> drops the tables \<^verbatim>\<open>grades\<close>,
  \<^verbatim>\<open>assignments\<close> and \<^verbatim>\<open>students\<close> that exist and creates them again: for every prior state
  of the connection (in which \<^verbatim>\<open>enrollments\<close>, a table of another program that references
  \<^verbatim>\<open>students\<close>, has its \<^verbatim>\<open>courses\<close> if it exists) it succeeds and leaves the three tables
  empty, with their counters at zero and the two indexes, and running it again changes
  nothing more.  \<^verbatim>\<open>create_schema\<close> of \<^verbatim>\<open>homework.py\<close>, on a database without \<^verbatim>\<open>students\<close>,
  \<^verbatim>\<open>assignments\<close> and \<^verbatim>\<open>grades\<close>, succeeds and adds the three empty tables.
  \<^verbatim>\<open>create_schema\<close> of \<^verbatim>\<open>exercises.py\<close> only creates: on a database without \<^verbatim>\<open>students\<close>,
  \<^verbatim>\<open>courses\<close> and \<^verbatim>\<open>enrollments\<close>, as \<^verbatim>\<open>reset_db\<close> leaves it, it succeeds and adds the
  three empty tables; where \<^verbatim>\<open>students\<close> already exists it raises an error and changes
  nothing.
\<close>

theorem create_schema_fresh_tables:
  "(enrollments (db c) = None \<or> courses (db c) \<noteq> None \<longrightarrow>
        snd (demo_create_schema c) = Inr ()
        \<and> students (db (fst (demo_create_schema c))) = Some []
        \<and> assignments (db (fst (demo_create_schema c))) = Some []
        \<and> grades (db (fst (demo_create_schema c))) = Some []
        \<and> seq_students (db (fst (demo_create_schema c))) = 0
        \<and> seq_assignments (db (fst (demo_create_schema c))) = 0
        \<and> seq_grades (db (fst (demo_create_schema c))) = 0
        \<and> grade_indexes (db (fst (demo_create_schema c)))
            = [''idx_grades_student_id'', ''idx_grades_assignment_id'']
        \<and> demo_create_schema (fst (demo_create_schema c)) = demo_create_schema c)
   \<and> (students (db c) = None \<and> assignments (db c) = None \<and> grades (db c) = None \<longrightarrow>
        snd (homework_create_schema c) = Inr ()
        \<and> db (fst (homework_create_schema c))
            = (db c)\<lparr>students := Some [], assignments := Some [], grades := Some [],
                seq_students := 0, seq_assignments := 0, seq_grades := 0,
                grade_indexes := []\<rparr>)
   \<and> (students (db c) = None \<and> courses (db c) = None \<and> enrollments (db c) = None \<longrightarrow>
        snd (exercises_create_schema c) = Inr ()
        \<and> db (fst (exercises_create_schema c))
            = (db c)\<lparr>students := Some [], courses := Some [], enrollments := Some [],
                seq_students := 0, seq_courses := 0, seq_enrollments := 0\<rparr>)
   \<and> (students (db c) \<noteq> None \<longrightarrow>
        snd (exercises_create_schema c) = Inl OperationalError
        \<and> db (fst (exercises_create_schema c)) = db c)"
  using demo_create_schema_result [of c] demo_create_schema_idem [of c]
    homework_create_schema_fresh [of c]
    exercises_create_schema_fresh [of c] exercises_create_schema_again [of c]
  by blast

text \<open>
  The theorem at the fresh file, at the database \<^verbatim>\<open>main\<close> of \<^verbatim>\<open>exercises.py\<close> built, and
  at the database \<^verbatim>\<open>main\<close> of \<^verbatim>\<open>demo.py\<close> built: there the seven grades are gone.
\<close>

theorem create_schema_fresh_tables_witness:
  "exercises_create_schema (connect reset_db)
     = (\<lparr>db = reset_db\<lparr>students := Some [], courses := Some [], enrollments := Some []\<rparr>,
         snapshot = None\<rparr>, Inr ())
   \<and> snd (exercises_create_schema \<lparr>db = exercises_db, snapshot = None\<rparr>) = Inl OperationalError
   \<and> homework_create_schema (connect reset_db)
     = (\<lparr>db = reset_db\<lparr>students := Some [], assignments := Some [], grades := Some []\<rparr>,
         snapshot = None\<rparr>, Inr ())
   \<and> snd (demo_create_schema \<lparr>db = demo_db example_now, snapshot = None\<rparr>) = Inr ()
   \<and> students (db (fst (demo_create_schema \<lparr>db = demo_db example_now, snapshot = None\<rparr>)))
       = Some []
   \<and> grades (db (fst (demo_create_schema \<lparr>db = demo_db example_now, snapshot = None\<rparr>)))
       = Some []
   \<and> grade_indexes (db (fst (demo_create_schema \<lparr>db = demo_db example_now, snapshot = None\<rparr>)))
       = [''idx_grades_student_id'', ''idx_grades_assignment_id'']"
  using create_schema_fresh_tables [of "connect reset_db"]
    create_schema_fresh_tables [of "\<lparr>db = exercises_db, snapshot = None\<rparr>"]
    create_schema_fresh_tables [of "\<lparr>db = demo_db example_now, snapshot = None\<rparr>"]
  by (simp add: connect_def reset_db_def exercises_db_def demo_db_def homework_db_def
      exercises_create_schema_def homework_create_schema_def schema_defs)

text \<open>
  Claim C3 as stated fails in the \<^verbatim>\<open>exercises.py\<close> variant: run on the database its own
  first run left, \<^verbatim>\<open>create_schema\<close> does not succeed.
\<close>

theorem exercises_create_schema_twice_counterexample:
  "snd (exercises_create_schema (connect reset_db)) = Inr ()
   \<and> snd (exercises_create_schema (fst (exercises_create_schema (connect reset_db))))
       = Inl OperationalError"
  by (simp add: exercises_create_schema_def schema_defs connect_def reset_db_def)

section \<open>The order of the query results\<close>

lemma report_seed_value:
  "report_seed (connect reset_db) = (\<lparr>db = report_db, snapshot = None\<rparr>, Inr ())"
  by (simp add: report_seed_def homework_create_schema_def add_student_def
      add_assignment_def record_grade_def insert_student_def insert_assignment_def
      insert_grade_def report_db_def script_defs)

lemma sorted_desc_sort_key_desc: "sorted_wrt (\<ge>) (map f (sort_key_desc f xs))"
proof -
  have "sorted_wrt (\<ge>) (rev (map f (sort_key f (rev xs))))"
    unfolding sorted_wrt_rev by (rule sorted_sort_key)
  then show ?thesis
    by (simp add: sort_key_desc_def rev_map)
qed

lemma enrollment_row_key:
  "map (\<lambda>r. (text_of (column r ''student_name''), text_of (column r ''course_code'')))
     (map enrollment_row js) = map (\<lambda>(s, c). (s_name s, c_code c)) js"
  by (induction js) (auto simp: enrollment_row_def column_def text_of_def)

lemma join_row_key:
  "map (\<lambda>r. (text_of (column r ''student''), text_of (column r ''assignment'')))
     (map join_row js) = map (\<lambda>(g, s, a). (s_name s, a_title a)) js"
  by (induction js) (auto simp: join_row_def column_def text_of_def)

lemma student_row_key:
  "map (\<lambda>r. text_of (column r ''name'')) (map student_row ss) = map s_name ss"
  by (induction ss) (auto simp: student_row_def column_def text_of_def)

lemma leaderboard_row_key:
  "map (\<lambda>r. real_of (column r ''avg_percent'')) (map leaderboard_row ps) = map snd ps"
  by (induction ps)
    (auto simp: leaderboard_row_def column_def real_of_def real_value_def split: option.splits)

lemma list_enrollments_sorted:
  assumes "enrollments (db c) \<noteq> None" and "students (db c) \<noteq> None" and "courses (db c) \<noteq> None"
  shows "\<exists>rows. list_enrollments c = Inr rows
    \<and> (\<forall>r\<in>set rows. keys r = [''student_name'', ''course_code'', ''course_title''])
    \<and> sorted (map (\<lambda>r. (text_of (column r ''student_name''), text_of (column r ''course_code'')))
        rows)"
proof -
  from assms obtain js where q: "list_enrollments c
      = Inr (map enrollment_row (sort_key (\<lambda>(s, c). (s_name s, c_code c)) js))"
    by (auto simp: list_enrollments_def)
  have "\<forall>r\<in>set (map enrollment_row (sort_key (\<lambda>(s, c). (s_name s, c_code c)) js)).
      keys r = [''student_name'', ''course_code'', ''course_title'']"
    by (auto simp: enrollment_row_def keys_def)
  moreover
  have "sorted (map (\<lambda>r. (text_of (column r ''student_name''), text_of (column r ''course_code'')))
      (map enrollment_row (sort_key (\<lambda>(s, c). (s_name s, c_code c)) js)))"
    unfolding enrollment_row_key by (rule sorted_sort_key)
  ultimately show ?thesis
    using q by blast
qed

lemma demo_join_query_sorted:
  assumes "grades (db c) \<noteq> None" and "students (db c) \<noteq> None" and "assignments (db c) \<noteq> None"
  shows "\<exists>rows. demo_join_query c = Inr rows
    \<and> (\<forall>r\<in>set rows. keys r = [''student'', ''assignment'', ''score''])
    \<and> sorted (map (\<lambda>r. (text_of (column r ''student''), text_of (column r ''assignment'')))
        rows)"
proof -
  from assms obtain js where q: "demo_join_query c
      = Inr (map join_row (sort_key (\<lambda>(g, s, a). (s_name s, a_title a)) js))"
    by (auto simp: demo_join_query_def)
  have "\<forall>r\<in>set (map join_row (sort_key (\<lambda>(g, s, a). (s_name s, a_title a)) js)).
      keys r = [''student'', ''assignment'', ''score'']"
    by (auto simp: join_row_def keys_def)
  moreover
  have "sorted (map (\<lambda>r. (text_of (column r ''student''), text_of (column r ''assignment'')))
      (map join_row (sort_key (\<lambda>(g, s, a). (s_name s, a_title a)) js)))"
    unfolding join_row_key by (rule sorted_sort_key)
  ultimately show ?thesis
    using q by blast
qed

lemma list_students_sorted:
  assumes "students (db c) \<noteq> None"
  shows "\<exists>rows. list_students c = Inr rows
    \<and> (\<forall>r\<in>set rows. keys r = [''id'', ''name'', ''email''])
    \<and> sorted (map (\<lambda>r. text_of (column r ''name'')) rows)"
proof -
  from assms obtain ss where q: "list_students c = Inr (map student_row (sort_key s_name ss))"
    by (auto simp: list_students_def)
  have "\<forall>r\<in>set (map student_row (sort_key s_name ss)). keys r = [''id'', ''name'', ''email'']"
    by (auto simp: student_row_def keys_def)
  moreover
  have "sorted (map (\<lambda>r. text_of (column r ''name'')) (map student_row (sort_key s_name ss)))"
    unfolding student_row_key by (rule sorted_sort_key)
  ultimately show ?thesis
    using q by blast
qed

lemma leaderboard_sorted:
  assumes "grades (db c) \<noteq> None" and "students (db c) \<noteq> None" and "assignments (db c) \<noteq> None"
  shows "\<exists>rows. leaderboard c = Inr rows
    \<and> (\<forall>r\<in>set rows. keys r = [''student'', ''avg_percent''])
    \<and> sorted_wrt (\<ge>) (map (\<lambda>r. real_of (column r ''avg_percent'')) rows)"
proof -
  from assms obtain ps where q: "leaderboard c = Inr (map leaderboard_row (sort_key_desc snd ps))"
    by (auto simp: leaderboard_def)
  have "\<forall>r\<in>set (map leaderboard_row (sort_key_desc snd ps)). keys r = [''student'', ''avg_percent'']"
    by (auto simp: leaderboard_row_def keys_def)
  moreover
  have "sorted_wrt (\<ge>) (map (\<lambda>r. real_of (column r ''avg_percent''))
      (map leaderboard_row (sort_key_desc snd ps)))"
    unfolding leaderboard_row_key by (rule sorted_desc_sort_key_desc)
  ultimately show ?thesis
    using q by blast
qed

lemma student_grade_report_columns:
  assumes "grades (db c) \<noteq> None" and "assignments (db c) \<noteq> None"
  shows "\<exists>rows. student_grade_report c student_id = Inr rows
    \<and> (\<forall>r\<in>set rows. keys r = [''assignment_title'', ''score'', ''max_points'', ''percent''])"
  using assms
  by (auto simp: student_grade_report_def report_row_def keys_def)

text \<open>
  Claim C4, as amended.  On a connection whose tables exist, each read-many query returns
  normally a sequence of rows that all have the columns the query names, in that order:
  \<^item> \<^verbatim>\<open>list_enrollments\<close>: \<^verbatim>\<open>student_name\<close>, \<^verbatim>\<open>course_code\<close>, \<^verbatim>\<open>course_title\<close>, ascending
    by student name, then by course code;
  \<^item> the query of \<^verbatim>\<open>demo_join\<close>: \<^verbatim>\<open>student\<close>, \<^verbatim>\<open>assignment\<close>, \<^verbatim>\<open>score\<close>, ascending by
    student name, then by assignment title;
  \<^item> \<^verbatim>\<open>list_students\<close>: \<^verbatim>\<open>id\<close>, \<^verbatim>\<open>name\<close>, \<^verbatim>\<open>email\<close>, ascending by name;
  \<^item> \<^verbatim>\<open>leaderboard\<close>: \<^verbatim>\<open>student\<close>, \<^verbatim>\<open>avg_percent\<close>, descending by \<^verbatim>\<open>avg_percent\<close>;
  \<^item> \<^verbatim>\<open>student_grade_report\<close>: \<^verbatim>\<open>assignment_title\<close>, \<^verbatim>\<open>score\<close>, \<^verbatim>\<open>max_points\<close>,
    \<^verbatim>\<open>percent\<close>; the query states no order and none is claimed.
  Strings compare as SQLite's default collation compares them, byte by byte.
\<close>

theorem read_many_queries_ordered:
  "(enrollments (db c) \<noteq> None \<and> students (db c) \<noteq> None \<and> courses (db c) \<noteq> None \<longrightarrow>
      (\<exists>rows. list_enrollments c = Inr rows
        \<and> (\<forall>r\<in>set rows. keys r = [''student_name'', ''course_code'', ''course_title''])
        \<and> sorted (map (\<lambda>r. (text_of (column r ''student_name''),
                             text_of (column r ''course_code''))) rows)))
   \<and> (grades (db c) \<noteq> None \<and> students (db c) \<noteq> None \<and> assignments (db c) \<noteq> None \<longrightarrow>
      (\<exists>rows. demo_join_query c = Inr rows
        \<and> (\<forall>r\<in>set rows. keys r = [''student'', ''assignment'', ''score''])
        \<and> sorted (map (\<lambda>r. (text_of (column r ''student''),
                             text_of (column r ''assignment''))) rows))
      \<and> (\<exists>rows. leaderboard c = Inr rows
        \<and> (\<forall>r\<in>set rows. keys r = [''student'', ''avg_percent''])
        \<and> sorted_wrt (\<ge>) (map (\<lambda>r. real_of (column r ''avg_percent'')) rows)))
   \<and> (students (db c) \<noteq> None \<longrightarrow>
      (\<exists>rows. list_students c = Inr rows
        \<and> (\<forall>r\<in>set rows. keys r = [''id'', ''name'', ''email''])
        \<and> sorted (map (\<lambda>r. text_of (column r ''name'')) rows)))
   \<and> (grades (db c) \<noteq> None \<and> assignments (db c) \<noteq> None \<longrightarrow>
      (\<exists>rows. student_grade_report c student_id = Inr rows
        \<and> (\<forall>r\<in>set rows.
              keys r = [''assignment_title'', ''score'', ''max_points'', ''percent''])))"
  using list_enrollments_sorted [of c] demo_join_query_sorted [of c] leaderboard_sorted [of c]
    list_students_sorted [of c] student_grade_report_columns [of c student_id]
  by blast

text \<open>
  The theorem at the databases the three programs build: the join of \<^verbatim>\<open>demo.py\<close> and the
  students of \<^verbatim>\<open>homework.py\<close> come out in order, and the enrollments of \<^verbatim>\<open>exercises.py\<close>
  are none.
\<close>

theorem read_many_queries_ordered_witness:
  "list_enrollments \<lparr>db = exercises_db, snapshot = None\<rparr> = Inr []
   \<and> map (\<lambda>r. (text_of (column r ''student''), text_of (column r ''assignment'')))
       (projr (demo_join_query \<lparr>db = demo_db example_now, snapshot = None\<rparr>))
     = [(''Ava'', ''Homework 1''), (''Ava'', ''Quiz 1''), (''Maya'', ''Homework 1''),
        (''Maya'', ''Midterm''), (''Maya'', ''Quiz 1''), (''Noah'', ''Homework 1''),
        (''Noah'', ''Quiz 1'')]
   \<and> sorted (map (\<lambda>r. (text_of (column r ''student''), text_of (column r ''assignment'')))
       (projr (demo_join_query \<lparr>db = demo_db example_now, snapshot = None\<rparr>)))
   \<and> map (\<lambda>r. text_of (column r ''name''))
       (projr (list_students \<lparr>db = homework_db, snapshot = None\<rparr>))
     = [''Ava'', ''Maya'', ''Noah'']
   \<and> sorted (map (\<lambda>r. text_of (column r ''name''))
       (projr (list_students \<lparr>db = homework_db, snapshot = None\<rparr>)))"
proof -
  have e: "list_enrollments \<lparr>db = exercises_db, snapshot = None\<rparr> = Inr []"
    by (simp add: list_enrollments_def exercises_db_def)
  have "students (db \<lparr>db = homework_db, snapshot = None\<rparr>) \<noteq> None"
    by (simp add: homework_db_def)
  with read_many_queries_ordered [of "\<lparr>db = homework_db, snapshot = None\<rparr>" 0,
      THEN conjunct2, THEN conjunct2, THEN conjunct1]
  obtain rows where "list_students \<lparr>db = homework_db, snapshot = None\<rparr> = Inr rows"
    and "sorted (map (\<lambda>r. text_of (column r ''name'')) rows)"
    by blast
  then have s: "sorted (map (\<lambda>r. text_of (column r ''name''))
      (projr (list_students \<lparr>db = homework_db, snapshot = None\<rparr>)))"
    by simp
  have "grades (db \<lparr>db = demo_db example_now, snapshot = None\<rparr>) \<noteq> None
      \<and> students (db \<lparr>db = demo_db example_now, snapshot = None\<rparr>) \<noteq> None
      \<and> assignments (db \<lparr>db = demo_db example_now, snapshot = None\<rparr>) \<noteq> None"
    by (simp add: demo_db_def homework_db_def)
  with read_many_queries_ordered [of "\<lparr>db = demo_db example_now, snapshot = None\<rparr>" 0,
      THEN conjunct2, THEN conjunct1]
  obtain rows' where "demo_join_query \<lparr>db = demo_db example_now, snapshot = None\<rparr> = Inr rows'"
    and "sorted (map (\<lambda>r. (text_of (column r ''student''), text_of (column r ''assignment'')))
      rows')"
    by blast
  then have j: "sorted (map (\<lambda>r. (text_of (column r ''student''), text_of (column r ''assignment'')))
      (projr (demo_join_query \<lparr>db = demo_db example_now, snapshot = None\<rparr>)))"
    by simp
  have jv: "map (\<lambda>r. (text_of (column r ''student''), text_of (column r ''assignment'')))
       (projr (demo_join_query \<lparr>db = demo_db example_now, snapshot = None\<rparr>))
     = [(''Ava'', ''Homework 1''), (''Ava'', ''Quiz 1''), (''Maya'', ''Homework 1''),
        (''Maya'', ''Midterm''), (''Maya'', ''Quiz 1''), (''Noah'', ''Homework 1''),
        (''Noah'', ''Quiz 1'')]"
    by code_simp
  have sv: "map (\<lambda>r. text_of (column r ''name''))
       (projr (list_students \<lparr>db = homework_db, snapshot = None\<rparr>))
     = [''Ava'', ''Maya'', ''Noah'']"
    by code_simp
  from e s j jv sv show ?thesis
    by blast
qed

text \<open>
  Claim C4 as stated fails for \<^verbatim>\<open>student_grade_report\<close>, whose query has no
  \<^verbatim>\<open>ORDER BY\<close>.  For a student with three grades entered in the order of the
  assignments, the report lists them in that order, which is neither ascending nor
  descending in any of its four columns.
\<close>

theorem student_grade_report_unordered_counterexample:
  "student_grade_report \<lparr>db = report_db, snapshot = None\<rparr> 1
     = Inr [[(''assignment_title'', Text ''Essay''), (''score'', Integer 5),
             (''max_points'', Integer 10), (''percent'', Real 50)],
            [(''assignment_title'', Text ''Debate''), (''score'', Integer 100),
             (''max_points'', Integer 100), (''percent'', Real 100)],
            [(''assignment_title'', Text ''Final''), (''score'', Integer 10),
             (''max_points'', Integer 50), (''percent'', Real 20)]]
   \<and> \<not> sorted (map (\<lambda>r. text_of (column r ''assignment_title''))
         (projr (student_grade_report \<lparr>db = report_db, snapshot = None\<rparr> 1)))
   \<and> \<not> sorted (rev (map (\<lambda>r. text_of (column r ''assignment_title''))
         (projr (student_grade_report \<lparr>db = report_db, snapshot = None\<rparr> 1))))
   \<and> \<not> sorted (map (\<lambda>r. int_of (column r ''score''))
         (projr (student_grade_report \<lparr>db = report_db, snapshot = None\<rparr> 1)))
   \<and> \<not> sorted (rev (map (\<lambda>r. int_of (column r ''score''))
         (projr (student_grade_report \<lparr>db = report_db, snapshot = None\<rparr> 1))))
   \<and> \<not> sorted (map (\<lambda>r. int_of (column r ''max_points''))
         (projr (student_grade_report \<lparr>db = report_db, snapshot = None\<rparr> 1)))
   \<and> \<not> sorted (rev (map (\<lambda>r. int_of (column r ''max_points''))
         (projr (student_grade_report \<lparr>db = report_db, snapshot = None\<rparr> 1))))
   \<and> \<not> sorted (map (\<lambda>r. real_of (column r ''percent''))
         (projr (student_grade_report \<lparr>db = report_db, snapshot = None\<rparr> 1)))
   \<and> \<not> sorted (rev (map (\<lambda>r. real_of (column r ''percent''))
         (projr (student_grade_report \<lparr>db = report_db, snapshot = None\<rparr> 1))))"
  by code_simp

section \<open>The leaderboard\<close>

subsection \<open>The join, one grade at a time\<close>











subsection \<open>The aggregate of a group\<close>



subsection \<open>The query and the specification\<close>








end
